theory Spec2Isabelle
  imports Complex_Main "HOL-Library.Char_ord" "HOL-Library.List_Lexorder"
begin

section \<open>Data model\<close>

text \<open>
  The two source files share the types \<^verbatim>\<open>NodeId\<close>, \<^verbatim>\<open>Node\<close> and \<^verbatim>\<open>Edge\<close>.
  Identifiers are strings; the order \<open><\<close> on them is the lexicographic order of their
  characters (\<open>Char_ord\<close>, \<open>List_Lexorder\<close>), which is what the comparison of two
  JavaScript strings computes on the code units. The numbers of a response are modelled
  as \<open>real\<close>; the code modelled here stores, copies and compares them with zero, and
  computes nothing from them.
  A geometry point \<^verbatim>\<open>[lon, lat]\<close> is a pair. A coordinate of a drawable position is a
  number or \<^verbatim>\<open>undefined\<close> (\<open>None\<close>): the code can read \<^verbatim>\<open>.y\<close> and \<^verbatim>\<open>.x\<close> from a value
  that is not a node.
  Optional fields (\<^verbatim>\<open>fuel_price?\<close>, \<^verbatim>\<open>geometry?\<close>, \<^verbatim>\<open>summary?\<close>, ...) are options.
  Field names carry the name of their type as a prefix, since several types of the
  source have fields of the same name (\<^verbatim>\<open>from\<close>, \<^verbatim>\<open>to\<close>, \<^verbatim>\<open>positions\<close>).
\<close>

type_synonym NodeId = string

type_synonym Coord = "real option"

type_synonym Position = "Coord \<times> Coord"

record Node =
  node_id :: NodeId
  node_x :: real
  node_y :: real
  node_fuel_price :: "real option"

record Edge =
  edge_from :: NodeId
  edge_to :: NodeId
  edge_distance :: real
  edge_geometry :: "(real \<times> real) list option"

text \<open>An element of \<^verbatim>\<open>edgeLines\<close>.\<close>

record EdgeLine =
  line_positions :: "Position list"
  line_distance :: real

text \<open>A value of the map \<^verbatim>\<open>edgeGeometryByKey\<close>.\<close>

record EdgeGeometry =
  geom_from :: NodeId
  geom_to :: NodeId
  geom_positions :: "Position list"

text \<open>An element of the result of \<^verbatim>\<open>buildRouteSegments\<close>.\<close>

record Segment =
  seg_key :: string
  seg_from :: NodeId
  seg_to :: NodeId
  seg_positions :: "Position list"

record RouteSummary =
  summary_distance_km :: real
  summary_fuel_cost :: real

text \<open>
  \<^verbatim>\<open>total_distance\<close> and \<^verbatim>\<open>fuel_cost\<close> are read with \<^verbatim>\<open>?? 0\<close>, so they may be missing.
\<close>

record Route =
  route_path :: "NodeId list"
  route_total_distance :: "real option"
  route_fuel_cost :: "real option"
  route_objective :: real
  route_expanded :: real
  route_notes :: "string option"
  route_summary :: "RouteSummary option"

record RouteComparison =
  cmp_baseline_fuel_cost :: real
  cmp_optimized_fuel_cost :: real
  cmp_savings_amount :: real
  cmp_savings_percent :: real

text \<open>
  The parsed body. \<^verbatim>\<open>route\<close> is read with \<^verbatim>\<open>data.route ?? null\<close> and tested before
  use, so it is an option here.
\<close>

record RouteResponse =
  resp_api_version :: "string option"
  resp_nodes :: "Node list"
  resp_edges :: "Edge list"
  resp_route :: "Route option"
  resp_baseline_path :: "NodeId list option"
  resp_comparison :: "RouteComparison option"

section \<open>The map component\<close>

subsection \<open>\<^verbatim>\<open>buildEdgeKey\<close>\<close>

definition buildEdgeKey :: "NodeId \<Rightarrow> NodeId \<Rightarrow> string" where
  "buildEdgeKey a b = (if a < b then a @ ''|'' @ b else b @ ''|'' @ a)"

subsection \<open>\<^verbatim>\<open>nodesById\<close>\<close>

text \<open>
  \<^verbatim>\<open>nodesById\<close> is a plain object, \<^verbatim>\<open>const lookup: Record<NodeId, Node> = {}\<close>, filled
  by \<^verbatim>\<open>lookup[n.id] = n\<close> and read by \<^verbatim>\<open>nodesById[id]\<close>. A read finds the properties
  the object owns and those it inherits, so a read can return a value that is not a node.
  The code does two things with the value it reads: it tests it (\<^verbatim>\<open>!fromNodeData\<close>) and
  it reads \<^verbatim>\<open>.y\<close> and \<^verbatim>\<open>.x\<close> from it. A value is therefore one of:
  \<^item> \<open>Undefined\<close>: \<^verbatim>\<open>undefined\<close> or \<^verbatim>\<open>null\<close>; the test fails, a property read throws;
  \<^item> \<open>Falsy\<close>: another value that fails the test (the number 0, the empty string);
    a property read gives \<^verbatim>\<open>undefined\<close>;
  \<^item> \<open>NodeObject n\<close>: the node \<open>n\<close>;
  \<^item> \<open>Truthy\<close>: any other value that passes the test (a function, an object, a number
    that is not 0, a string that is not empty); it has no \<^verbatim>\<open>x\<close> and no \<^verbatim>\<open>y\<close>.
\<close>

datatype JsValue = Undefined | Falsy | NodeObject Node | Truthy

definition truthy :: "JsValue \<Rightarrow> bool" where
  "truthy v = (case v of Undefined \<Rightarrow> False | Falsy \<Rightarrow> False | NodeObject n \<Rightarrow> True | Truthy \<Rightarrow> True)"

text \<open>
  The names of the properties of \<^verbatim>\<open>Object.prototype\<close>, which every plain object inherits,
  apart from \<^verbatim>\<open>__proto__\<close>. Each is a function.
\<close>

definition objectPrototypeNames :: "string list" where
  "objectPrototypeNames =
     [''constructor'', ''__defineGetter__'', ''__defineSetter__'', ''hasOwnProperty'',
      ''__lookupGetter__'', ''__lookupSetter__'', ''isPrototypeOf'', ''propertyIsEnumerable'',
      ''toString'', ''valueOf'', ''toLocaleString'']"

text \<open>
  The object: the nodes it owns, by identifier, and its prototype, which is
  \<^verbatim>\<open>Object.prototype\<close> (\<open>None\<close>) until a node is assigned to the key \<^verbatim>\<open>__proto__\<close>.
\<close>

record LookupObject =
  own_nodes :: "NodeId \<rightharpoonup> Node"
  proto_node :: "Node option"

definition emptyObject :: LookupObject where
  "emptyObject = \<lparr>own_nodes = Map.empty, proto_node = None\<rparr>"

text \<open>
  \<^verbatim>\<open>lookup[k] = n\<close>. The key \<^verbatim>\<open>__proto__\<close> is an accessor of \<^verbatim>\<open>Object.prototype\<close>:
  assigning an object to it does not add a property, it makes that object the prototype.
\<close>

definition setProperty :: "LookupObject \<Rightarrow> NodeId \<Rightarrow> Node \<Rightarrow> LookupObject" where
  "setProperty obj k n =
     (if k = ''__proto__'' then obj\<lparr>proto_node := Some n\<rparr>
      else obj\<lparr>own_nodes := (own_nodes obj)(k \<mapsto> n)\<rparr>)"

text \<open>
  The value of the property \<open>k\<close> of a node that serves as prototype, \<open>None\<close> when the
  node has no such property: its fields are \<^verbatim>\<open>id\<close>, \<^verbatim>\<open>x\<close>, \<^verbatim>\<open>y\<close> and, when present,
  \<^verbatim>\<open>fuel_price\<close>.
\<close>

definition nodeProperty :: "Node \<Rightarrow> string \<Rightarrow> JsValue option" where
  "nodeProperty p k =
     (if k = ''id'' then Some (if node_id p = [] then Falsy else Truthy)
      else if k = ''x'' then Some (if node_x p = 0 then Falsy else Truthy)
      else if k = ''y'' then Some (if node_y p = 0 then Falsy else Truthy)
      else if k = ''fuel_price'' then
        (case node_fuel_price p of
           None \<Rightarrow> None
         | Some price \<Rightarrow> Some (if price = 0 then Falsy else Truthy))
      else None)"

text \<open>
  \<^verbatim>\<open>lookup[k]\<close>. The key \<^verbatim>\<open>__proto__\<close> reads the prototype itself. Any other key is looked
  for among the own properties, then in the node that is the prototype, if any, then in
  \<^verbatim>\<open>Object.prototype\<close>.
\<close>

definition getProperty :: "LookupObject \<Rightarrow> NodeId \<Rightarrow> JsValue" where
  "getProperty obj k =
     (if k = ''__proto__'' then
        (case proto_node obj of None \<Rightarrow> Truthy | Some p \<Rightarrow> NodeObject p)
      else
        (case own_nodes obj k of
           Some n \<Rightarrow> NodeObject n
         | None \<Rightarrow>
             (case (case proto_node obj of None \<Rightarrow> None | Some p \<Rightarrow> nodeProperty p k) of
                Some v \<Rightarrow> v
              | None \<Rightarrow> if k \<in> set objectPrototypeNames then Truthy else Undefined)))"

text \<open>\<^verbatim>\<open>nodes.forEach((n) => { lookup[n.id] = n; })\<close>, from the empty object.\<close>

definition nodesById :: "Node list \<Rightarrow> LookupObject" where
  "nodesById nodes = fold (\<lambda>n lookup. setProperty lookup (node_id n) n) nodes emptyObject"

text \<open>
  \<^verbatim>\<open>[v.y, v.x]\<close> for a value \<open>v\<close> whose properties can be read: the coordinates of a
  node, and \<^verbatim>\<open>undefined\<close> twice for any other value.
\<close>

definition coordinates :: "JsValue \<Rightarrow> Position" where
  "coordinates v = (case v of NodeObject n \<Rightarrow> (Some (node_y n), Some (node_x n)) | _ \<Rightarrow> (None, None))"

text \<open>
  In the functions below, \<open>byId\<close> is the read \<^verbatim>\<open>nodesById[id]\<close>, that is
  \<open>getProperty (nodesById nodes)\<close> for the nodes of the component.
\<close>

subsection \<open>\<^verbatim>\<open>edgeLines\<close>\<close>

text \<open>
  \<^verbatim>\<open>edges.map(...).filter(Boolean)\<close>: an edge with an endpoint that fails the test
  \<^verbatim>\<open>!fromNodeData || !toNodeData\<close> maps to \<^verbatim>\<open>null\<close> and is filtered out. The test
  \<^verbatim>\<open>edge.geometry && edge.geometry.length > 0\<close> is false for a missing geometry and for
  an empty one.
\<close>

definition edgeLines :: "(NodeId \<Rightarrow> JsValue) \<Rightarrow> Edge list \<Rightarrow> EdgeLine list" where
  "edgeLines byId edges =
     List.map_filter
       (\<lambda>edge.
          let fromNodeData = byId (edge_from edge); toNodeData = byId (edge_to edge) in
          if \<not> truthy fromNodeData \<or> \<not> truthy toNodeData then None
          else
            (let positions =
                   (if edge_geometry edge \<noteq> None \<and> length (the (edge_geometry edge)) > 0
                    then map (\<lambda>(lon, lat). (Some lat, Some lon)) (the (edge_geometry edge))
                    else [coordinates fromNodeData, coordinates toNodeData])
             in Some \<lparr>line_positions = positions, line_distance = edge_distance edge\<rparr>))
       edges"

subsection \<open>\<^verbatim>\<open>edgeGeometryByKey\<close>\<close>

text \<open>
  One turn of the \<^verbatim>\<open>for (const edge of edges)\<close> loop, on the map built so far:
  \<^verbatim>\<open>continue\<close> when an endpoint fails the test, \<^verbatim>\<open>byKey.set(key, ...)\<close> otherwise.
\<close>

definition edgeGeometryStep :: "(NodeId \<Rightarrow> JsValue) \<Rightarrow> Edge \<Rightarrow> (string \<rightharpoonup> EdgeGeometry) \<Rightarrow> (string \<rightharpoonup> EdgeGeometry)" where
  "edgeGeometryStep byId edge byKey =
     (let fromNodeData = byId (edge_from edge); toNodeData = byId (edge_to edge) in
      if \<not> truthy fromNodeData \<or> \<not> truthy toNodeData then byKey
      else
        (let key = buildEdgeKey (edge_from edge) (edge_to edge);
             positions =
               (if edge_geometry edge \<noteq> None \<and> length (the (edge_geometry edge)) > 0
                then map (\<lambda>(lon, lat). (Some lat, Some lon)) (the (edge_geometry edge))
                else [coordinates fromNodeData, coordinates toNodeData])
         in byKey(key \<mapsto>
              \<lparr>geom_from = edge_from edge, geom_to = edge_to edge, geom_positions = positions\<rparr>)))"

definition edgeGeometryByKey :: "(NodeId \<Rightarrow> JsValue) \<Rightarrow> Edge list \<Rightarrow> (string \<rightharpoonup> EdgeGeometry)" where
  "edgeGeometryByKey byId edges = fold (edgeGeometryStep byId) edges Map.empty"

subsection \<open>\<^verbatim>\<open>buildRouteSegments\<close>\<close>

text \<open>The decimal text of an index, as the template \<^verbatim>\<open>${i}\<close> writes it.\<close>

definition digitChar :: "nat \<Rightarrow> char" where
  "digitChar d = ''0123456789'' ! d"

function stringOfNat :: "nat \<Rightarrow> string" where
  "stringOfNat n = (if n < 10 then [digitChar n] else stringOfNat (n div 10) @ [digitChar (n mod 10)])"
  by pat_completeness auto
termination
  by (relation "measure id") auto

declare stringOfNat.simps [simp del]

definition segmentKey :: "NodeId \<Rightarrow> NodeId \<Rightarrow> nat \<Rightarrow> string" where
  "segmentKey from_id to_id i = from_id @ ''-'' @ to_id @ ''-'' @ stringOfNat i"

text \<open>
  Reading a property of \<^verbatim>\<open>undefined\<close> throws a \<^verbatim>\<open>TypeError\<close>. The reads of \<^verbatim>\<open>.y\<close>
  and \<^verbatim>\<open>.x\<close> on the result of a lookup in \<^verbatim>\<open>nodesById\<close> are the only operations of
  \<^verbatim>\<open>buildRouteSegments\<close> that can throw, so they are modelled as fallible.
\<close>

datatype JsError = TypeError

definition readPosition :: "JsValue \<Rightarrow> JsError + Position" where
  "readPosition nodeData =
     (case nodeData of Undefined \<Rightarrow> Inl TypeError | _ \<Rightarrow> Inr (coordinates nodeData))"

text \<open>
  The body of the \<^verbatim>\<open>for\<close> loop at index \<open>i\<close>: \<open>Inr None\<close> is \<^verbatim>\<open>continue\<close>,
  \<open>Inr (Some seg)\<close> is \<^verbatim>\<open>segments.push(seg)\<close>, \<open>Inl\<close> is a throw.
\<close>

definition segmentAt :: "(NodeId \<Rightarrow> JsValue) \<Rightarrow> (string \<rightharpoonup> EdgeGeometry) \<Rightarrow> NodeId list \<Rightarrow> nat \<Rightarrow> JsError + Segment option" where
  "segmentAt byId byKey path i =
     (let from_id = path ! i; to_id = path ! (i + 1) in
      if from_id = to_id then Inr None
      else
        case byKey (buildEdgeKey from_id to_id) of
          Some edge \<Rightarrow>
            (let positions =
                   (if geom_from edge = from_id \<and> geom_to edge = to_id then geom_positions edge
                    else rev (geom_positions edge))
             in Inr (Some \<lparr>seg_key = segmentKey from_id to_id i, seg_from = from_id,
                           seg_to = to_id, seg_positions = positions\<rparr>))
        | None \<Rightarrow>
            (let fromNodeData = byId from_id; toNodeData = byId to_id in
             if \<not> truthy fromNodeData \<or> \<not> truthy toNodeData then Inr None
             else
               (case readPosition fromNodeData of
                  Inl e \<Rightarrow> Inl e
                | Inr p \<Rightarrow>
                    (case readPosition toNodeData of
                       Inl e \<Rightarrow> Inl e
                     | Inr q \<Rightarrow>
                         Inr (Some \<lparr>seg_key = segmentKey from_id to_id i, seg_from = from_id,
                                    seg_to = to_id, seg_positions = [p, q]\<rparr>)))))"

function segmentsLoop :: "(NodeId \<Rightarrow> JsValue) \<Rightarrow> (string \<rightharpoonup> EdgeGeometry) \<Rightarrow> NodeId list \<Rightarrow> nat \<Rightarrow> Segment list \<Rightarrow> JsError + Segment list" where
  "segmentsLoop byId byKey path i segments =
     (if i < length path - 1 then
        (case segmentAt byId byKey path i of
           Inl e \<Rightarrow> Inl e
         | Inr None \<Rightarrow> segmentsLoop byId byKey path (i + 1) segments
         | Inr (Some seg) \<Rightarrow> segmentsLoop byId byKey path (i + 1) (segments @ [seg]))
      else Inr segments)"
  by pat_completeness auto
termination
  by (relation "measure (\<lambda>(byId, byKey, path, i, segments). length path - 1 - i)") auto

declare segmentsLoop.simps [simp del]

definition buildRouteSegments :: "(NodeId \<Rightarrow> JsValue) \<Rightarrow> (string \<rightharpoonup> EdgeGeometry) \<Rightarrow> NodeId list \<Rightarrow> JsError + Segment list" where
  "buildRouteSegments byId byKey path =
     (if length path < 2 then Inr [] else segmentsLoop byId byKey path 0 [])"

section \<open>The page\<close>

subsection \<open>\<^verbatim>\<open>summaryPath\<close>\<close>

text \<open>The \<^verbatim>\<open>for (const node of route.path)\<close> loop, with \<^verbatim>\<open>cleaned\<close> as accumulator.\<close>

fun summaryPathLoop :: "NodeId list \<Rightarrow> NodeId list \<Rightarrow> NodeId list" where
  "summaryPathLoop [] cleaned = cleaned"
| "summaryPathLoop (node # rest) cleaned =
     summaryPathLoop rest
       (if length cleaned = 0 \<or> last cleaned \<noteq> node then cleaned @ [node] else cleaned)"

definition summaryPath :: "Route option \<Rightarrow> NodeId list" where
  "summaryPath route =
     (case route of
        None \<Rightarrow> []
      | Some r \<Rightarrow> if length (route_path r) = 0 then [] else summaryPathLoop (route_path r) [])"

subsection \<open>The state of the page\<close>

datatype Algorithm = Dijkstra | Astar | Greedy

text \<open>
  What the \<^verbatim>\<open>try\<close> block can throw: the \<^verbatim>\<open>Error\<close> of a response that is not ok, the
  rejection of \<^verbatim>\<open>fetch\<close>, the rejection of \<^verbatim>\<open>res.json()\<close> (both with the message the
  runtime gives), and the \<^verbatim>\<open>TypeError\<close> of reading \<^verbatim>\<open>data.route.path\<close> when
  \<^verbatim>\<open>data.route\<close> is missing. All are instances of \<^verbatim>\<open>Error\<close>; the \<^verbatim>\<open>error\<close> state
  holds the message of the one that was thrown, kept here as the thrown value itself.
\<close>

datatype Thrown =
    RequestFailed nat
  | FetchRejected string
  | JsonRejected string
  | RouteReadTypeError

record PageState =
  st_nodes :: "Node list"
  st_edges :: "Edge list"
  st_comparison :: "RouteComparison option"
  st_route :: "Route option"
  st_baselinePath :: "NodeId list"
  st_from :: NodeId
  st_to :: NodeId
  st_algorithm :: Algorithm
  st_seed :: string
  st_loading :: bool
  st_error :: "Thrown option"

text \<open>The initial values of the \<^verbatim>\<open>useState\<close> calls.\<close>

definition initialState :: PageState where
  "initialState =
     \<lparr>st_nodes = [], st_edges = [], st_comparison = None, st_route = None,
      st_baselinePath = [], st_from = [], st_to = [], st_algorithm = Dijkstra,
      st_seed = ''42'', st_loading = False, st_error = None\<rparr>"

subsection \<open>\<^verbatim>\<open>fetchRoute\<close>\<close>

text \<open>
  The answer of the network to one request: \<^verbatim>\<open>fetch\<close> rejects, or it resolves to a
  response with a status whose body \<^verbatim>\<open>res.json()\<close> parses or rejects.
\<close>

datatype Body = Unparseable string | Parsed RouteResponse

datatype FetchOutcome = Rejected string | Responded nat Body

definition ok :: "nat \<Rightarrow> bool" where
  "ok status = (200 \<le> status \<and> status \<le> 299)"

text \<open>
  The value of \<^verbatim>\<open>apiRoute\<close> after the summary has been filled in:
  \<^verbatim>\<open>const apiRoute = data.route ?? null; if (apiRoute) { if (!apiRoute.summary) { ... } }\<close>.
\<close>

definition apiRoute :: "RouteResponse \<Rightarrow> Route option" where
  "apiRoute data =
     (case resp_route data of
        None \<Rightarrow> None
      | Some r \<Rightarrow>
          if route_summary r = None then
            Some (r\<lparr>route_summary :=
              Some \<lparr>summary_distance_km = (case route_total_distance r of None \<Rightarrow> 0 | Some d \<Rightarrow> d),
                    summary_fuel_cost = (case route_fuel_cost r of None \<Rightarrow> 0 | Some c \<Rightarrow> c)\<rparr>\<rparr>)
          else Some r)"

text \<open>
  The part of \<^verbatim>\<open>fetchRoute\<close> that runs before the first \<^verbatim>\<open>await\<close>. The request itself
  (its parameters are built from \<^verbatim>\<open>algorithm\<close>, \<^verbatim>\<open>seed\<close> and the selection) leaves the
  state alone.
\<close>

definition fetchRoute_start :: "PageState \<Rightarrow> PageState" where
  "fetchRoute_start s = s\<lparr>st_loading := True, st_error := None\<rparr>"

text \<open>
  The \<^verbatim>\<open>try\<close> block from the answer of the network on. It returns what was thrown, if
  anything, and the state with the setters that ran before. Nothing is written between
  the two \<^verbatim>\<open>await\<close>s, and the code after the second one runs to completion.
\<close>

definition tryBlock :: "bool \<Rightarrow> NodeId \<Rightarrow> NodeId \<Rightarrow> FetchOutcome \<Rightarrow> PageState \<Rightarrow> Thrown option \<times> PageState" where
  "tryBlock useCurrentStartGoal selectedFrom selectedTo outcome s =
     (case outcome of
        Rejected msg \<Rightarrow> (Some (FetchRejected msg), s)
      | Responded status body \<Rightarrow>
          if \<not> ok status then (Some (RequestFailed status), s)
          else
            (case body of
               Unparseable msg \<Rightarrow> (Some (JsonRejected msg), s)
             | Parsed data \<Rightarrow>
                 (let nodesWithFuel = map (\<lambda>node. node) (resp_nodes data);
                      s1 = s\<lparr>st_nodes := nodesWithFuel\<rparr>;
                      s2 = s1\<lparr>st_edges :=
                             map (\<lambda>e. \<lparr>edge_from = edge_from e, edge_to = edge_to e,
                                        edge_distance = edge_distance e,
                                        edge_geometry = edge_geometry e\<rparr>) (resp_edges data)\<rparr>;
                      s3 = s2\<lparr>st_route := apiRoute data\<rparr>;
                      s4 = s3\<lparr>st_baselinePath :=
                             (case resp_baseline_path data of None \<Rightarrow> [] | Some p \<Rightarrow> p)\<rparr>;
                      s5 = s4\<lparr>st_comparison := resp_comparison data\<rparr>
                  in if \<not> useCurrentStartGoal then
                       (case resp_route data of
                          None \<Rightarrow> (Some RouteReadTypeError, s5)
                        | Some r \<Rightarrow>
                            if length (route_path r) > 0 then
                              (let s6 = (if selectedFrom = [] then s5\<lparr>st_from := route_path r ! 0\<rparr>
                                         else s5);
                                   s7 = (if selectedTo = []
                                         then s6\<lparr>st_to := route_path r ! (length (route_path r) - 1)\<rparr>
                                         else s6)
                               in (None, s7))
                            else (None, s5))
                     else (None, s5))))"

text \<open>The \<^verbatim>\<open>catch\<close> block.\<close>

definition catchBlock :: "Thrown \<Rightarrow> PageState \<Rightarrow> PageState" where
  "catchBlock err s = s\<lparr>st_error := Some err, st_route := None, st_baselinePath := []\<rparr>"

text \<open>\<^verbatim>\<open>fetchRoute\<close> from the answer of the network on: \<^verbatim>\<open>try\<close>, \<^verbatim>\<open>catch\<close>, \<^verbatim>\<open>finally\<close>.\<close>

definition fetchRoute_settle :: "bool \<Rightarrow> NodeId \<Rightarrow> NodeId \<Rightarrow> FetchOutcome \<Rightarrow> PageState \<Rightarrow> PageState" where
  "fetchRoute_settle useCurrentStartGoal selectedFrom selectedTo outcome s =
     (let (thrown, s1) = tryBlock useCurrentStartGoal selectedFrom selectedTo outcome s;
          s2 = (case thrown of None \<Rightarrow> s1 | Some err \<Rightarrow> catchBlock err s1)
      in s2\<lparr>st_loading := False\<rparr>)"

text \<open>
  The comparison that the summary section draws: the section shows
  \<^verbatim>\<open>Fetch a route to see the summary.\<close> without a route, \<^verbatim>\<open>No path found.\<close> for an
  empty path, and the comparison only inside the summary of a route with a path.
\<close>

definition shownComparison :: "PageState \<Rightarrow> RouteComparison option" where
  "shownComparison s =
     (case st_route s of
        None \<Rightarrow> None
      | Some r \<Rightarrow> if length (route_path r) > 0 then st_comparison s else None)"

section \<open>Properties of the map component\<close>

subsection \<open>Reading the lookup object\<close>

lemma getProperty_nodesById_A:
  "getProperty
     (nodesById [\<lparr>node_id = ''A'', node_x = 10, node_y = 20, node_fuel_price = None\<rparr>,
                 \<lparr>node_id = ''B'', node_x = 30, node_y = 40, node_fuel_price = None\<rparr>]) ''A''
   = NodeObject \<lparr>node_id = ''A'', node_x = 10, node_y = 20, node_fuel_price = None\<rparr>"
  by (simp add: nodesById_def setProperty_def emptyObject_def getProperty_def)

lemma getProperty_nodesById_B:
  "getProperty
     (nodesById [\<lparr>node_id = ''A'', node_x = 10, node_y = 20, node_fuel_price = None\<rparr>,
                 \<lparr>node_id = ''B'', node_x = 30, node_y = 40, node_fuel_price = None\<rparr>]) ''B''
   = NodeObject \<lparr>node_id = ''B'', node_x = 30, node_y = 40, node_fuel_price = None\<rparr>"
  by (simp add: nodesById_def setProperty_def emptyObject_def getProperty_def)

lemma getProperty_nodesById_Z:
  "getProperty
     (nodesById [\<lparr>node_id = ''A'', node_x = 10, node_y = 20, node_fuel_price = None\<rparr>,
                 \<lparr>node_id = ''B'', node_x = 30, node_y = 40, node_fuel_price = None\<rparr>]) ''Z''
   = Undefined"
  by (simp add: nodesById_def setProperty_def emptyObject_def getProperty_def
      objectPrototypeNames_def)

lemma getProperty_single_A:
  "getProperty
     (nodesById [\<lparr>node_id = ''A'', node_x = 10, node_y = 20, node_fuel_price = None\<rparr>]) ''A''
   = NodeObject \<lparr>node_id = ''A'', node_x = 10, node_y = 20, node_fuel_price = None\<rparr>"
  by (simp add: nodesById_def setProperty_def emptyObject_def getProperty_def)

lemma getProperty_single_constructor:
  "getProperty
     (nodesById [\<lparr>node_id = ''A'', node_x = 10, node_y = 20, node_fuel_price = None\<rparr>])
     ''constructor''
   = Truthy"
  by (simp add: nodesById_def setProperty_def emptyObject_def getProperty_def
      objectPrototypeNames_def)

subsection \<open>The canonical key and the edge index\<close>

lemma buildEdgeKey_commute: "buildEdgeKey a b = buildEdgeKey b a"
  by (auto simp: buildEdgeKey_def)

lemma split_at_bar:
  "CHR ''|'' \<notin> set a \<Longrightarrow> CHR ''|'' \<notin> set c \<Longrightarrow> a @ ''|'' @ b = c @ ''|'' @ d
   \<Longrightarrow> a = c \<and> b = d"
proof (induction a arbitrary: c)
  case Nil
  then show ?case by (cases c) auto
next
  case (Cons x a)
  then show ?case by (cases c) auto
qed

text \<open>
  For identifiers without the separator, two pairs have the same key only when they are
  the same pair, in either order.
\<close>

lemma buildEdgeKey_inj:
  assumes "CHR ''|'' \<notin> set a" and "CHR ''|'' \<notin> set b"
    and "CHR ''|'' \<notin> set c" and "CHR ''|'' \<notin> set d"
    and "buildEdgeKey a b = buildEdgeKey c d"
  shows "(a = c \<and> b = d) \<or> (a = d \<and> b = c)"
  using assms split_at_bar [of a c b d] split_at_bar [of a d b c]
    split_at_bar [of b c a d] split_at_bar [of b d a c]
  by (auto simp: buildEdgeKey_def split: if_splits)

lemma edgeGeometryStep_skip:
  "\<not> truthy (byId (edge_from e)) \<or> \<not> truthy (byId (edge_to e)) \<Longrightarrow>
   edgeGeometryStep byId e m = m"
  by (auto simp: edgeGeometryStep_def Let_def)

lemma edgeGeometryStep_other:
  "k \<noteq> buildEdgeKey (edge_from e) (edge_to e) \<Longrightarrow> edgeGeometryStep byId e m k = m k"
  by (auto simp: edgeGeometryStep_def Let_def)

lemma edgeGeometryStep_set:
  "truthy (byId (edge_from e)) \<Longrightarrow> truthy (byId (edge_to e)) \<Longrightarrow>
   edgeGeometryStep byId e m (buildEdgeKey (edge_from e) (edge_to e))
     = edgeGeometryStep byId e Map.empty (buildEdgeKey (edge_from e) (edge_to e))"
  by (auto simp: edgeGeometryStep_def Let_def)

lemma edgeGeometryStep_known_value:
  assumes "byId (edge_from edge) = NodeObject f" and "byId (edge_to edge) = NodeObject t"
  shows "edgeGeometryStep byId edge m (buildEdgeKey (edge_from edge) (edge_to edge)) =
     Some \<lparr>geom_from = edge_from edge, geom_to = edge_to edge,
       geom_positions =
         (if edge_geometry edge \<noteq> None \<and> length (the (edge_geometry edge)) > 0
          then map (\<lambda>(lon, lat). (Some lat, Some lon)) (the (edge_geometry edge))
          else [(Some (node_y f), Some (node_x f)), (Some (node_y t), Some (node_x t))])\<rparr>"
  using assms by (simp add: edgeGeometryStep_def Let_def truthy_def coordinates_def)

lemma fold_edgeGeometryStep_absent:
  "\<forall>e \<in> set edges. truthy (byId (edge_from e)) \<and> truthy (byId (edge_to e))
      \<longrightarrow> buildEdgeKey (edge_from e) (edge_to e) \<noteq> k \<Longrightarrow>
   fold (edgeGeometryStep byId) edges m k = m k"
proof (induction edges arbitrary: m)
  case Nil
  then show ?case by simp
next
  case (Cons e edges)
  have "edgeGeometryStep byId e m k = m k"
  proof (cases "\<not> truthy (byId (edge_from e)) \<or> \<not> truthy (byId (edge_to e))")
    case True
    then show ?thesis by (simp add: edgeGeometryStep_skip)
  next
    case False
    with Cons.prems have "k \<noteq> buildEdgeKey (edge_from e) (edge_to e)" by auto
    then show ?thesis by (rule edgeGeometryStep_other)
  qed
  with Cons show ?case by simp
qed

lemma dom_edgeGeometryStep:
  "dom (edgeGeometryStep byId e m) =
     dom m \<union> (if truthy (byId (edge_from e)) \<and> truthy (byId (edge_to e))
               then {buildEdgeKey (edge_from e) (edge_to e)} else {})"
  by (auto simp: edgeGeometryStep_def Let_def split: if_splits)

lemma dom_fold_edgeGeometryStep:
  "dom (fold (edgeGeometryStep byId) edges m) =
     dom m \<union> {buildEdgeKey (edge_from e) (edge_to e) | e.
                 e \<in> set edges \<and> truthy (byId (edge_from e)) \<and> truthy (byId (edge_to e))}"
proof (induction edges arbitrary: m)
  case Nil
  then show ?case by simp
next
  case (Cons e edges)
  show ?case
    unfolding fold_simps Cons.IH dom_edgeGeometryStep by auto
qed

lemma dom_edgeGeometryByKey:
  "dom (edgeGeometryByKey byId edges) =
     {buildEdgeKey (edge_from e) (edge_to e) | e.
        e \<in> set edges \<and> truthy (byId (edge_from e)) \<and> truthy (byId (edge_to e))}"
  by (simp add: edgeGeometryByKey_def dom_fold_edgeGeometryStep)

lemma edgeGeometryByKey_snoc:
  "edgeGeometryByKey byId (edges @ [edge]) = edgeGeometryStep byId edge (edgeGeometryByKey byId edges)"
  by (simp add: edgeGeometryByKey_def)

lemma edgeGeometryByKey_last_wins:
  assumes "truthy (byId (edge_from e))" and "truthy (byId (edge_to e))"
    and "\<forall>e' \<in> set post. truthy (byId (edge_from e')) \<and> truthy (byId (edge_to e'))
           \<longrightarrow> buildEdgeKey (edge_from e') (edge_to e') \<noteq> buildEdgeKey (edge_from e) (edge_to e)"
  shows "edgeGeometryByKey byId (pre @ e # post) (buildEdgeKey (edge_from e) (edge_to e))
       = edgeGeometryByKey byId [e] (buildEdgeKey (edge_from e) (edge_to e))"
proof -
  let ?k = "buildEdgeKey (edge_from e) (edge_to e)"
  let ?m = "fold (edgeGeometryStep byId) pre Map.empty"
  have "edgeGeometryByKey byId (pre @ e # post) ?k
      = fold (edgeGeometryStep byId) post (edgeGeometryStep byId e ?m) ?k"
    by (simp add: edgeGeometryByKey_def)
  also have "\<dots> = edgeGeometryStep byId e ?m ?k"
    using assms(3) by (rule fold_edgeGeometryStep_absent)
  also have "\<dots> = edgeGeometryStep byId e Map.empty ?k"
    using assms(1,2) by (rule edgeGeometryStep_set)
  finally show ?thesis by (simp add: edgeGeometryByKey_def)
qed

lemma edgeLines_snoc_known:
  assumes "byId (edge_from edge) = NodeObject f" and "byId (edge_to edge) = NodeObject t"
  shows "edgeLines byId (edges @ [edge]) = edgeLines byId edges @
     [\<lparr>line_positions =
         (if edge_geometry edge \<noteq> None \<and> length (the (edge_geometry edge)) > 0
          then map (\<lambda>(lon, lat). (Some lat, Some lon)) (the (edge_geometry edge))
          else [(Some (node_y f), Some (node_x f)), (Some (node_y t), Some (node_x t))]),
       line_distance = edge_distance edge\<rparr>]"
  using assms by (simp add: edgeLines_def List.map_filter_def Let_def truthy_def coordinates_def)

text \<open>
  Claim C6, at an input where the code departs from it. The only location is A, at
  x = 10 and y = 20, and the only connection goes from A to \<^verbatim>\<open>constructor\<close>, which is
  not a location. The read \<^verbatim>\<open>nodesById['constructor']\<close> returns the function every
  object inherits, the test \<^verbatim>\<open>!toNodeData\<close> lets it pass, and the connection is indexed
  under the key \<^verbatim>\<open>A|constructor\<close>, with \<^verbatim>\<open>undefined\<close> coordinates for its second point.
\<close>

theorem edgeGeometryByKey_inherited_name:
  "edgeGeometryByKey
     (getProperty
        (nodesById [\<lparr>node_id = ''A'', node_x = 10, node_y = 20, node_fuel_price = None\<rparr>]))
     [\<lparr>edge_from = ''A'', edge_to = ''constructor'', edge_distance = 7, edge_geometry = None\<rparr>]
     ''A|constructor''
   = Some \<lparr>geom_from = ''A'', geom_to = ''constructor'',
            geom_positions = [(Some 20, Some 10), (None, None)]\<rparr>"
  by (simp add: edgeGeometryByKey_def edgeGeometryStep_def Let_def buildEdgeKey_def
      getProperty_single_A getProperty_single_constructor truthy_def coordinates_def)

subsection \<open>The positions of an indexed connection\<close>

text \<open>
  Claim C7, as the code has it. For a connection with both endpoints known, the entry
  written to the index (and the line that \<^verbatim>\<open>edgeLines\<close> draws) has the converted geometry
  as positions when the geometry is present and not empty, each \<^verbatim>\<open>[lon, lat]\<close> turned into
  \<^verbatim>\<open>[lat, lon]\<close>; when the geometry is absent or empty, the positions are the straight
  line between the two endpoints.
\<close>

theorem edge_positions_geometry_or_line:
  "byId (edge_from edge) = NodeObject f \<and> byId (edge_to edge) = NodeObject t \<longrightarrow>
     (\<exists>g l. edgeGeometryByKey byId (edges @ [edge]) (buildEdgeKey (edge_from edge) (edge_to edge)) = Some g
        \<and> edgeLines byId (edges @ [edge]) = edgeLines byId edges @ [l]
        \<and> geom_from g = edge_from edge \<and> geom_to g = edge_to edge
        \<and> line_positions l = geom_positions g \<and> line_distance l = edge_distance edge
        \<and> (\<forall>geometry. edge_geometry edge = Some geometry \<and> geometry \<noteq> [] \<longrightarrow>
              geom_positions g = map (\<lambda>(lon, lat). (Some lat, Some lon)) geometry)
        \<and> (edge_geometry edge = None \<or> edge_geometry edge = Some [] \<longrightarrow>
              geom_positions g
                = [(Some (node_y f), Some (node_x f)), (Some (node_y t), Some (node_x t))]))"
proof
  assume known: "byId (edge_from edge) = NodeObject f \<and> byId (edge_to edge) = NodeObject t"
  let ?ps = "if edge_geometry edge \<noteq> None \<and> length (the (edge_geometry edge)) > 0
          then map (\<lambda>(lon, lat). (Some lat, Some lon)) (the (edge_geometry edge))
          else [(Some (node_y f), Some (node_x f)), (Some (node_y t), Some (node_x t))]"
  let ?g = "\<lparr>geom_from = edge_from edge, geom_to = edge_to edge, geom_positions = ?ps\<rparr>"
  let ?l = "\<lparr>line_positions = ?ps, line_distance = edge_distance edge\<rparr>"
  have index: "edgeGeometryByKey byId (edges @ [edge]) (buildEdgeKey (edge_from edge) (edge_to edge)) = Some ?g"
    using known by (simp add: edgeGeometryByKey_snoc edgeGeometryStep_known_value)
  have lines: "edgeLines byId (edges @ [edge]) = edgeLines byId edges @ [?l]"
    using known by (simp add: edgeLines_snoc_known)
  have same: "geom_from ?g = edge_from edge \<and> geom_to ?g = edge_to edge
      \<and> line_positions ?l = geom_positions ?g \<and> line_distance ?l = edge_distance edge"
    by simp
  have present: "\<forall>geometry. edge_geometry edge = Some geometry \<and> geometry \<noteq> [] \<longrightarrow>
              geom_positions ?g = map (\<lambda>(lon, lat). (Some lat, Some lon)) geometry"
    by simp
  have absent: "edge_geometry edge = None \<or> edge_geometry edge = Some [] \<longrightarrow>
              geom_positions ?g
                = [(Some (node_y f), Some (node_x f)), (Some (node_y t), Some (node_x t))]"
    by auto
  from index lines same present absent
  show "\<exists>g l. edgeGeometryByKey byId (edges @ [edge]) (buildEdgeKey (edge_from edge) (edge_to edge)) = Some g
        \<and> edgeLines byId (edges @ [edge]) = edgeLines byId edges @ [l]
        \<and> geom_from g = edge_from edge \<and> geom_to g = edge_to edge
        \<and> line_positions l = geom_positions g \<and> line_distance l = edge_distance edge
        \<and> (\<forall>geometry. edge_geometry edge = Some geometry \<and> geometry \<noteq> [] \<longrightarrow>
              geom_positions g = map (\<lambda>(lon, lat). (Some lat, Some lon)) geometry)
        \<and> (edge_geometry edge = None \<or> edge_geometry edge = Some [] \<longrightarrow>
              geom_positions g
                = [(Some (node_y f), Some (node_x f)), (Some (node_y t), Some (node_x t))])"
    by blast
qed

text \<open>
  Two instances: a connection from A to B with a geometry of two points, and one from B
  to A without geometry.
\<close>

theorem edge_positions_geometry_or_line_witness:
  "(\<exists>g. edgeGeometryByKey
     (getProperty
        (nodesById [\<lparr>node_id = ''A'', node_x = 10, node_y = 20, node_fuel_price = None\<rparr>,
                    \<lparr>node_id = ''B'', node_x = 30, node_y = 40, node_fuel_price = None\<rparr>]))
     ([] @ [\<lparr>edge_from = ''A'', edge_to = ''B'', edge_distance = 7,
             edge_geometry = Some [(1, 2), (3, 4)]\<rparr>])
     (buildEdgeKey ''A'' ''B'') = Some g
       \<and> geom_positions g = [(Some 2, Some 1), (Some 4, Some 3)])
   \<and> (\<exists>g. edgeGeometryByKey
     (getProperty
        (nodesById [\<lparr>node_id = ''A'', node_x = 10, node_y = 20, node_fuel_price = None\<rparr>,
                    \<lparr>node_id = ''B'', node_x = 30, node_y = 40, node_fuel_price = None\<rparr>]))
     ([] @ [\<lparr>edge_from = ''B'', edge_to = ''A'', edge_distance = 7, edge_geometry = None\<rparr>])
     (buildEdgeKey ''B'' ''A'') = Some g
       \<and> geom_positions g = [(Some 40, Some 30), (Some 20, Some 10)])"
  using
    edge_positions_geometry_or_line
      [where byId = "getProperty
        (nodesById [\<lparr>node_id = ''A'', node_x = 10, node_y = 20, node_fuel_price = None\<rparr>,
                    \<lparr>node_id = ''B'', node_x = 30, node_y = 40, node_fuel_price = None\<rparr>])"
         and edge = "\<lparr>edge_from = ''A'', edge_to = ''B'', edge_distance = 7,
             edge_geometry = Some [(1, 2), (3, 4)]\<rparr>"
         and f = "\<lparr>node_id = ''A'', node_x = 10, node_y = 20, node_fuel_price = None\<rparr>"
         and t = "\<lparr>node_id = ''B'', node_x = 30, node_y = 40, node_fuel_price = None\<rparr>"
         and edges = "[]"]
    edge_positions_geometry_or_line
      [where byId = "getProperty
        (nodesById [\<lparr>node_id = ''A'', node_x = 10, node_y = 20, node_fuel_price = None\<rparr>,
                    \<lparr>node_id = ''B'', node_x = 30, node_y = 40, node_fuel_price = None\<rparr>])"
         and edge = "\<lparr>edge_from = ''B'', edge_to = ''A'', edge_distance = 7, edge_geometry = None\<rparr>"
         and f = "\<lparr>node_id = ''B'', node_x = 30, node_y = 40, node_fuel_price = None\<rparr>"
         and t = "\<lparr>node_id = ''A'', node_x = 10, node_y = 20, node_fuel_price = None\<rparr>"
         and edges = "[]"]
  by (auto simp: getProperty_nodesById_A getProperty_nodesById_B)

text \<open>
  Claim C7 as the specification states it fails for a geometry that is present and empty:
  the connection from A (at x = 10, y = 20) to B (at x = 30, y = 40) with the geometry
  \<^verbatim>\<open>[]\<close> is indexed with the straight line between A and B, not with the conversion of
  its geometry, which has no point.
\<close>

theorem edge_positions_empty_geometry_counterexample:
  "edgeGeometryByKey
     (getProperty
        (nodesById [\<lparr>node_id = ''A'', node_x = 10, node_y = 20, node_fuel_price = None\<rparr>,
                    \<lparr>node_id = ''B'', node_x = 30, node_y = 40, node_fuel_price = None\<rparr>]))
     [\<lparr>edge_from = ''A'', edge_to = ''B'', edge_distance = 7, edge_geometry = Some []\<rparr>]
     (buildEdgeKey ''A'' ''B'')
   = Some \<lparr>geom_from = ''A'', geom_to = ''B'',
            geom_positions = [(Some 20, Some 10), (Some 40, Some 30)]\<rparr>
   \<and> [(Some 20, Some 10), (Some 40, Some 30)] \<noteq> ([] :: Position list)"
  by (simp add: edgeGeometryByKey_def edgeGeometryStep_def Let_def buildEdgeKey_def
      getProperty_nodesById_A getProperty_nodesById_B truthy_def coordinates_def)

subsection \<open>The segments of a path\<close>

lemma stringOfNat_0: "stringOfNat 0 = ''0''"
  by (simp add: stringOfNat.simps digitChar_def)

lemma stringOfNat_1: "stringOfNat (Suc 0) = ''1''"
  by (simp add: stringOfNat.simps digitChar_def)

lemma readPosition_truthy: "truthy v \<Longrightarrow> readPosition v = Inr (coordinates v)"
  by (cases v) (simp_all add: truthy_def readPosition_def)

lemma segmentAt_total: "\<exists>r. segmentAt byId byKey path i = Inr r"
  by (auto simp: segmentAt_def Let_def readPosition_truthy split: option.splits)

lemma segmentsLoop_eq:
  "segmentsLoop byId byKey path i segments =
     Inr (segments @ List.map_filter
        (\<lambda>j. case segmentAt byId byKey path j of Inl err \<Rightarrow> None | Inr r \<Rightarrow> r)
        [i..<length path - 1])"
proof (induction byId byKey path i segments rule: segmentsLoop.induct)
  case (1 byId byKey path i segments)
  show ?case
  proof (cases "i < length path - 1")
    case False
    then show ?thesis
      by (subst segmentsLoop.simps) (simp add: List.map_filter_simps)
  next
    case True
    obtain r where r: "segmentAt byId byKey path i = Inr r"
      using segmentAt_total by blast
    have upt: "[i..<length path - Suc 0] = i # [Suc i..<length path - Suc 0]"
      using True by (simp add: upt_conv_Cons)
    show ?thesis
    proof (cases r)
      case None
      with r True "1.IH"(1) [of None] show ?thesis
        by (subst segmentsLoop.simps) (simp add: upt List.map_filter_simps)
    next
      case (Some seg)
      with r True "1.IH"(2) [of "Some seg" seg] show ?thesis
        by (subst segmentsLoop.simps) (simp add: upt List.map_filter_simps)
    qed
  qed
qed

lemma buildRouteSegments_eq:
  "buildRouteSegments byId byKey path =
     Inr (List.map_filter
        (\<lambda>j. case segmentAt byId byKey path j of Inl err \<Rightarrow> None | Inr r \<Rightarrow> r)
        [0..<length path - 1])"
proof (cases "length path < 2")
  case True
  then have "[0..<length path - 1] = []" by simp
  with True show ?thesis
    by (simp add: buildRouteSegments_def List.map_filter_simps)
next
  case False
  then show ?thesis
    by (simp add: buildRouteSegments_def segmentsLoop_eq)
qed

lemma buildRouteSegments_member:
  assumes "i + 1 < length path" and "segmentAt byId byKey path i = Inr (Some seg)"
  shows "\<exists>segs. buildRouteSegments byId byKey path = Inr segs \<and> seg \<in> set segs"
proof -
  have "i \<in> set [0..<length path - 1]" using assms(1) by simp
  then have "seg \<in> set (List.map_filter
        (\<lambda>j. case segmentAt byId byKey path j of Inl err \<Rightarrow> None | Inr r \<Rightarrow> r)
        [0..<length path - 1])"
    using assms(2) by (force simp: List.map_filter_def)
  then show ?thesis
    by (simp add: buildRouteSegments_eq)
qed

lemma segmentAt_found:
  assumes "path ! i = u" and "path ! (i + 1) = v" and "u \<noteq> v"
    and "byKey (buildEdgeKey u v) = Some e"
  shows "segmentAt byId byKey path i =
     Inr (Some \<lparr>seg_key = segmentKey u v i, seg_from = u, seg_to = v,
                seg_positions = (if geom_from e = u \<and> geom_to e = v then geom_positions e
                                 else rev (geom_positions e))\<rparr>)"
  using assms by (simp add: segmentAt_def Let_def)

lemma segmentAt_fallback:
  assumes "path ! i = u" and "path ! (i + 1) = v" and "u \<noteq> v"
    and "byKey (buildEdgeKey u v) = None" and "truthy (byId u)" and "truthy (byId v)"
  shows "segmentAt byId byKey path i =
     Inr (Some \<lparr>seg_key = segmentKey u v i, seg_from = u, seg_to = v,
                seg_positions = [coordinates (byId u), coordinates (byId v)]\<rparr>)"
  using assms by (simp add: segmentAt_def Let_def readPosition_truthy)

lemma segmentAt_skipped:
  assumes "path ! i = u" and "path ! (i + 1) = v"
    and "byKey (buildEdgeKey u v) = None" and "\<not> truthy (byId u) \<or> \<not> truthy (byId v)"
  shows "segmentAt byId byKey path i = Inr None"
  using assms by (auto simp: segmentAt_def Let_def)

lemma reverse_traversal_example:
  assumes "byId ''A'' = NodeObject a" and "byId ''B'' = NodeObject b"
  shows "buildRouteSegments byId
       (edgeGeometryByKey byId
          [\<lparr>edge_from = ''A'', edge_to = ''B'', edge_distance = d,
            edge_geometry = Some [(0, 0), (1, 1), (2, 2)]\<rparr>])
       [''B'', ''A'']
     = Inr [\<lparr>seg_key = ''B-A-0'', seg_from = ''B'', seg_to = ''A'',
             seg_positions = [(Some 2, Some 2), (Some 1, Some 1), (Some 0, Some 0)]\<rparr>]"
proof -
  have idx: "edgeGeometryByKey byId
          [\<lparr>edge_from = ''A'', edge_to = ''B'', edge_distance = d,
            edge_geometry = Some [(0, 0), (1, 1), (2, 2)]\<rparr>]
        = [''A|B'' \<mapsto> \<lparr>geom_from = ''A'', geom_to = ''B'',
             geom_positions = [(Some 0, Some 0), (Some 1, Some 1), (Some 2, Some 2)]\<rparr>]"
    using assms
    by (simp add: edgeGeometryByKey_def edgeGeometryStep_def Let_def buildEdgeKey_def truthy_def)
  have at: "segmentAt byId [''A|B'' \<mapsto> \<lparr>geom_from = ''A'', geom_to = ''B'',
             geom_positions = [(Some 0, Some 0), (Some 1, Some 1), (Some 2, Some 2)]\<rparr>]
          [''B'', ''A''] 0
      = Inr (Some \<lparr>seg_key = ''B-A-0'', seg_from = ''B'', seg_to = ''A'',
             seg_positions = [(Some 2, Some 2), (Some 1, Some 1), (Some 0, Some 0)]\<rparr>)"
    by (simp add: segmentAt_def buildEdgeKey_def segmentKey_def stringOfNat_0)
  show ?thesis
    unfolding idx buildRouteSegments_eq
    by (simp add: List.map_filter_simps at)
qed

text \<open>
  Claim C1. When the loop reaches a consecutive pair \<open>(u, v)\<close> of the path (the two
  differ, or the loop would have gone on before the lookup) and the index has an entry
  under the canonical key of the pair, the resolver returns a list that holds the segment
  of that iteration: from \<open>u\<close> to \<open>v\<close>, keyed by \<open>u\<close>, \<open>v\<close> and the index of the
  pair, with the positions of the entry as they are when the entry was declared from
  \<open>u\<close> to \<open>v\<close>, and with the whole sequence reversed otherwise. For the connection
  declared from A to B with the geometry \<^verbatim>\<open>[[0,0],[1,1],[2,2]]\<close>, both endpoints known,
  the path from B to A resolves to the single segment with the positions
  \<^verbatim>\<open>[[2,2],[1,1],[0,0]]\<close>.
\<close>

theorem found_segment_direction:
  "(i + 1 < length path \<and> path ! i = u \<and> path ! (i + 1) = v \<and> u \<noteq> v
      \<and> byKey (buildEdgeKey u v) = Some e \<longrightarrow>
      (\<exists>segs seg. buildRouteSegments byId byKey path = Inr segs \<and> seg \<in> set segs
         \<and> segmentAt byId byKey path i = Inr (Some seg)
         \<and> seg_key seg = segmentKey u v i \<and> seg_from seg = u \<and> seg_to seg = v
         \<and> (geom_from e = u \<and> geom_to e = v \<longrightarrow> seg_positions seg = geom_positions e)
         \<and> (\<not> (geom_from e = u \<and> geom_to e = v) \<longrightarrow> seg_positions seg = rev (geom_positions e))))
   \<and> (byId ''A'' = NodeObject a \<and> byId ''B'' = NodeObject b \<longrightarrow>
        buildRouteSegments byId
          (edgeGeometryByKey byId
             [\<lparr>edge_from = ''A'', edge_to = ''B'', edge_distance = d,
               edge_geometry = Some [(0, 0), (1, 1), (2, 2)]\<rparr>])
          [''B'', ''A'']
        = Inr [\<lparr>seg_key = ''B-A-0'', seg_from = ''B'', seg_to = ''A'',
                seg_positions = [(Some 2, Some 2), (Some 1, Some 1), (Some 0, Some 0)]\<rparr>])"
proof (intro conjI impI)
  assume h: "i + 1 < length path \<and> path ! i = u \<and> path ! (i + 1) = v \<and> u \<noteq> v
      \<and> byKey (buildEdgeKey u v) = Some e"
  let ?seg = "\<lparr>seg_key = segmentKey u v i, seg_from = u, seg_to = v,
                seg_positions = (if geom_from e = u \<and> geom_to e = v then geom_positions e
                                 else rev (geom_positions e))\<rparr>"
  from h have at: "segmentAt byId byKey path i = Inr (Some ?seg)"
    by (intro segmentAt_found) simp_all
  from h have "i + 1 < length path" by simp
  from buildRouteSegments_member [OF this at]
  obtain segs where segs: "buildRouteSegments byId byKey path = Inr segs" "?seg \<in> set segs"
    by blast
  have fields: "seg_key ?seg = segmentKey u v i \<and> seg_from ?seg = u \<and> seg_to ?seg = v
         \<and> (geom_from e = u \<and> geom_to e = v \<longrightarrow> seg_positions ?seg = geom_positions e)
         \<and> (\<not> (geom_from e = u \<and> geom_to e = v) \<longrightarrow> seg_positions ?seg = rev (geom_positions e))"
    by simp
  from segs at fields
  show "\<exists>segs seg. buildRouteSegments byId byKey path = Inr segs \<and> seg \<in> set segs
         \<and> segmentAt byId byKey path i = Inr (Some seg)
         \<and> seg_key seg = segmentKey u v i \<and> seg_from seg = u \<and> seg_to seg = v
         \<and> (geom_from e = u \<and> geom_to e = v \<longrightarrow> seg_positions seg = geom_positions e)
         \<and> (\<not> (geom_from e = u \<and> geom_to e = v) \<longrightarrow> seg_positions seg = rev (geom_positions e))"
    by blast
next
  assume "byId ''A'' = NodeObject a \<and> byId ''B'' = NodeObject b"
  then show "buildRouteSegments byId
          (edgeGeometryByKey byId
             [\<lparr>edge_from = ''A'', edge_to = ''B'', edge_distance = d,
               edge_geometry = Some [(0, 0), (1, 1), (2, 2)]\<rparr>])
          [''B'', ''A'']
        = Inr [\<lparr>seg_key = ''B-A-0'', seg_from = ''B'', seg_to = ''A'',
                seg_positions = [(Some 2, Some 2), (Some 1, Some 1), (Some 0, Some 0)]\<rparr>]"
    by (intro reverse_traversal_example) simp_all
qed

text \<open>
  Instances: the path A, B, A over an index that holds the connection declared from A to
  B. The second pair is traversed against the declaration and the first along it. The
  example of the claim is taken with A at (10, 20) and B at (30, 40).
\<close>

theorem found_segment_direction_witness:
  "(\<exists>segs seg.
      buildRouteSegments
        (getProperty
           (nodesById [\<lparr>node_id = ''A'', node_x = 10, node_y = 20, node_fuel_price = None\<rparr>,
                       \<lparr>node_id = ''B'', node_x = 30, node_y = 40, node_fuel_price = None\<rparr>]))
        [''A|B'' \<mapsto> \<lparr>geom_from = ''A'', geom_to = ''B'',
           geom_positions = [(Some 1, Some 2), (Some 3, Some 4), (Some 5, Some 6)]\<rparr>]
        [''A'', ''B'', ''A''] = Inr segs
      \<and> seg \<in> set segs \<and> seg_key seg = ''B-A-1'' \<and> seg_from seg = ''B'' \<and> seg_to seg = ''A''
      \<and> seg_positions seg = [(Some 5, Some 6), (Some 3, Some 4), (Some 1, Some 2)])
   \<and> (\<exists>segs seg.
      buildRouteSegments
        (getProperty
           (nodesById [\<lparr>node_id = ''A'', node_x = 10, node_y = 20, node_fuel_price = None\<rparr>,
                       \<lparr>node_id = ''B'', node_x = 30, node_y = 40, node_fuel_price = None\<rparr>]))
        [''A|B'' \<mapsto> \<lparr>geom_from = ''A'', geom_to = ''B'',
           geom_positions = [(Some 1, Some 2), (Some 3, Some 4), (Some 5, Some 6)]\<rparr>]
        [''A'', ''B'', ''A''] = Inr segs
      \<and> seg \<in> set segs \<and> seg_key seg = ''A-B-0'' \<and> seg_from seg = ''A'' \<and> seg_to seg = ''B''
      \<and> seg_positions seg = [(Some 1, Some 2), (Some 3, Some 4), (Some 5, Some 6)])
   \<and> buildRouteSegments
        (getProperty
           (nodesById [\<lparr>node_id = ''A'', node_x = 10, node_y = 20, node_fuel_price = None\<rparr>,
                       \<lparr>node_id = ''B'', node_x = 30, node_y = 40, node_fuel_price = None\<rparr>]))
        (edgeGeometryByKey
           (getProperty
              (nodesById [\<lparr>node_id = ''A'', node_x = 10, node_y = 20, node_fuel_price = None\<rparr>,
                          \<lparr>node_id = ''B'', node_x = 30, node_y = 40, node_fuel_price = None\<rparr>]))
           [\<lparr>edge_from = ''A'', edge_to = ''B'', edge_distance = 7,
             edge_geometry = Some [(0, 0), (1, 1), (2, 2)]\<rparr>])
        [''B'', ''A'']
      = Inr [\<lparr>seg_key = ''B-A-0'', seg_from = ''B'', seg_to = ''A'',
              seg_positions = [(Some 2, Some 2), (Some 1, Some 1), (Some 0, Some 0)]\<rparr>]"
proof -
  let ?byId = "getProperty
           (nodesById [\<lparr>node_id = ''A'', node_x = 10, node_y = 20, node_fuel_price = None\<rparr>,
                       \<lparr>node_id = ''B'', node_x = 30, node_y = 40, node_fuel_price = None\<rparr>])"
  let ?e = "\<lparr>geom_from = ''A'', geom_to = ''B'',
           geom_positions = [(Some 1, Some 2), (Some 3, Some 4), (Some 5, Some 6)]\<rparr>"
  have against: "\<exists>segs seg.
      buildRouteSegments ?byId [''A|B'' \<mapsto> ?e] [''A'', ''B'', ''A''] = Inr segs
      \<and> seg \<in> set segs \<and> seg_key seg = ''B-A-1'' \<and> seg_from seg = ''B'' \<and> seg_to seg = ''A''
      \<and> seg_positions seg = [(Some 5, Some 6), (Some 3, Some 4), (Some 1, Some 2)]"
    using found_segment_direction
        [where i = 1 and path = "[''A'', ''B'', ''A'']" and u = "''B''" and v = "''A''"
           and byKey = "[''A|B'' \<mapsto> ?e]" and e = ?e and byId = ?byId]
    by (simp add: buildEdgeKey_def segmentKey_def stringOfNat_1) blast
  have along: "\<exists>segs seg.
      buildRouteSegments ?byId [''A|B'' \<mapsto> ?e] [''A'', ''B'', ''A''] = Inr segs
      \<and> seg \<in> set segs \<and> seg_key seg = ''A-B-0'' \<and> seg_from seg = ''A'' \<and> seg_to seg = ''B''
      \<and> seg_positions seg = [(Some 1, Some 2), (Some 3, Some 4), (Some 5, Some 6)]"
    using found_segment_direction
        [where i = 0 and path = "[''A'', ''B'', ''A'']" and u = "''A''" and v = "''B''"
           and byKey = "[''A|B'' \<mapsto> ?e]" and e = ?e and byId = ?byId]
    by (simp add: buildEdgeKey_def segmentKey_def stringOfNat_0) blast
  have example: "buildRouteSegments ?byId
        (edgeGeometryByKey ?byId
           [\<lparr>edge_from = ''A'', edge_to = ''B'', edge_distance = 7,
             edge_geometry = Some [(0, 0), (1, 1), (2, 2)]\<rparr>])
        [''B'', ''A'']
      = Inr [\<lparr>seg_key = ''B-A-0'', seg_from = ''B'', seg_to = ''A'',
              seg_positions = [(Some 2, Some 2), (Some 1, Some 1), (Some 0, Some 0)]\<rparr>]"
    using found_segment_direction
        [where byId = ?byId
           and a = "\<lparr>node_id = ''A'', node_x = 10, node_y = 20, node_fuel_price = None\<rparr>"
           and b = "\<lparr>node_id = ''B'', node_x = 30, node_y = 40, node_fuel_price = None\<rparr>"
           and d = 7]
    by (simp add: getProperty_nodesById_A getProperty_nodesById_B)
  from against along example show ?thesis by blast
qed

text \<open>
  Claim C9, at an input where the code departs from it. The only location is A, at
  x = 10 and y = 20, the index is empty and the path goes from A to \<^verbatim>\<open>constructor\<close>,
  which is not a location. The read \<^verbatim>\<open>nodesById['constructor']\<close> returns the function
  every object inherits, the test \<^verbatim>\<open>!toNodeData\<close> lets it pass, and the pair is not
  skipped: a segment is pushed whose second point has \<^verbatim>\<open>undefined\<close> coordinates.
\<close>

theorem buildRouteSegments_inherited_name:
  "buildRouteSegments
     (getProperty
        (nodesById [\<lparr>node_id = ''A'', node_x = 10, node_y = 20, node_fuel_price = None\<rparr>]))
     Map.empty [''A'', ''constructor'']
   = Inr [\<lparr>seg_key = ''A-constructor-0'', seg_from = ''A'', seg_to = ''constructor'',
           seg_positions = [(Some 20, Some 10), (None, None)]\<rparr>]"
proof -
  have at: "segmentAt
     (getProperty
        (nodesById [\<lparr>node_id = ''A'', node_x = 10, node_y = 20, node_fuel_price = None\<rparr>]))
     Map.empty [''A'', ''constructor''] 0
   = Inr (Some \<lparr>seg_key = ''A-constructor-0'', seg_from = ''A'', seg_to = ''constructor'',
           seg_positions = [(Some 20, Some 10), (None, None)]\<rparr>)"
    by (simp add: segmentAt_def Let_def getProperty_single_A getProperty_single_constructor
        truthy_def readPosition_def coordinates_def segmentKey_def stringOfNat_0)
  show ?thesis
    unfolding buildRouteSegments_eq
    by (simp add: List.map_filter_simps at)
qed

section \<open>Properties of the page\<close>

subsection \<open>The path of the summary\<close>

lemma summaryPathLoop_snoc:
  "cleaned \<noteq> [] \<Longrightarrow>
   summaryPathLoop xs cleaned = butlast cleaned @ remdups_adj (last cleaned # xs)"
proof (induction xs arbitrary: cleaned)
  case Nil
  then show ?case by simp
next
  case (Cons x xs)
  show ?case
  proof (cases "last cleaned = x")
    case True
    with Cons show ?thesis by simp
  next
    case False
    with Cons show ?thesis by simp
  qed
qed

lemma summaryPathLoop_empty: "summaryPathLoop xs [] = remdups_adj xs"
proof (cases xs)
  case Nil
  then show ?thesis by simp
next
  case (Cons x rest)
  then show ?thesis using summaryPathLoop_snoc [of "[x]" rest] by simp
qed

text \<open>
  Claim C4. The path of the summary is the path of the route with every run of equal
  neighbours collapsed to one element: no two neighbours of the result are equal, and a
  path without equal neighbours is returned as it is, repeats that are not neighbours
  included. The path A, A, B, C, C, C gives A, B, C, and the path A, B, A, C is unchanged.
\<close>

theorem summaryPath_collapses_adjacent_duplicates:
  "summaryPath (Some r) = remdups_adj (route_path r)
   \<and> distinct_adj (summaryPath (Some r))
   \<and> (distinct_adj (route_path r) \<longrightarrow> summaryPath (Some r) = route_path r)
   \<and> summaryPath (Some (r\<lparr>route_path := [''A'', ''A'', ''B'', ''C'', ''C'', ''C'']\<rparr>)) = [''A'', ''B'', ''C'']
   \<and> summaryPath (Some (r\<lparr>route_path := [''A'', ''B'', ''A'', ''C'']\<rparr>)) = [''A'', ''B'', ''A'', ''C'']"
proof -
  have eq: "summaryPath (Some r) = remdups_adj (route_path r)"
    by (simp add: summaryPath_def summaryPathLoop_empty)
  have adj: "distinct_adj (summaryPath (Some r))"
    unfolding eq by (rule distinct_adj_remdups_adj)
  have same: "distinct_adj (route_path r) \<longrightarrow> summaryPath (Some r) = route_path r"
    unfolding eq by (simp add: distinct_adj_altdef)
  have ex1: "summaryPath (Some (r\<lparr>route_path := [''A'', ''A'', ''B'', ''C'', ''C'', ''C'']\<rparr>)) = [''A'', ''B'', ''C'']"
    by (simp add: summaryPath_def)
  have ex2: "summaryPath (Some (r\<lparr>route_path := [''A'', ''B'', ''A'', ''C'']\<rparr>)) = [''A'', ''B'', ''A'', ''C'']"
    by (simp add: summaryPath_def)
  from eq adj same ex1 ex2 show ?thesis by blast
qed

text \<open>An instance of a path that comes back to a location: X, Y, X.\<close>

theorem summaryPath_collapses_adjacent_duplicates_witness:
  "distinct_adj [''X'', ''Y'', ''X''] \<and>
   summaryPath (Some \<lparr>route_path = [''X'', ''Y'', ''X''], route_total_distance = None,
      route_fuel_cost = None, route_objective = 0, route_expanded = 0, route_notes = None,
      route_summary = None\<rparr>) = [''X'', ''Y'', ''X'']"
  using summaryPath_collapses_adjacent_duplicates
    [of "\<lparr>route_path = [''X'', ''Y'', ''X''], route_total_distance = None,
      route_fuel_cost = None, route_objective = 0, route_expanded = 0, route_notes = None,
      route_summary = None\<rparr>"]
  by simp

subsection \<open>The result of a request\<close>

lemma copy_edges: "map (\<lambda>e. \<lparr>edge_from = edge_from e, edge_to = edge_to e,
      edge_distance = edge_distance e, edge_geometry = edge_geometry e\<rparr>) es = es"
  by (induction es) simp_all

lemma tryBlock_failed:
  "tryBlock u f t (Rejected msg) s = (Some (FetchRejected msg), s)"
  "\<not> ok status \<Longrightarrow> tryBlock u f t (Responded status body) s = (Some (RequestFailed status), s)"
  by (simp_all add: tryBlock_def)

lemma fetchRoute_settle_failed:
  "fetchRoute_settle u f t (Rejected msg) s =
     s\<lparr>st_error := Some (FetchRejected msg), st_route := None, st_baselinePath := [],
       st_loading := False\<rparr>"
  "\<not> ok status \<Longrightarrow> fetchRoute_settle u f t (Responded status body) s =
     s\<lparr>st_error := Some (RequestFailed status), st_route := None, st_baselinePath := [],
       st_loading := False\<rparr>"
  by (simp_all add: fetchRoute_settle_def tryBlock_failed catchBlock_def)

lemma tryBlock_parsed_fields:
  assumes "ok status" and "tryBlock u f t (Responded status (Parsed d)) s = (thrown, s')"
  shows "st_nodes s' = resp_nodes d" and "st_edges s' = resp_edges d"
    and "st_route s' = apiRoute d"
    and "st_baselinePath s' = (case resp_baseline_path d of None \<Rightarrow> [] | Some p \<Rightarrow> p)"
    and "st_comparison s' = resp_comparison d"
    and "thrown = None \<longleftrightarrow> (u \<or> resp_route d \<noteq> None)"
  using assms
  by (auto simp: tryBlock_def Let_def copy_edges split: option.splits if_splits)

lemma fetchRoute_settle_committed:
  assumes "ok status" and "u \<or> resp_route d \<noteq> None"
  shows "st_nodes (fetchRoute_settle u f t (Responded status (Parsed d)) s) = resp_nodes d"
    and "st_edges (fetchRoute_settle u f t (Responded status (Parsed d)) s) = resp_edges d"
    and "st_route (fetchRoute_settle u f t (Responded status (Parsed d)) s) = apiRoute d"
    and "st_baselinePath (fetchRoute_settle u f t (Responded status (Parsed d)) s)
           = (case resp_baseline_path d of None \<Rightarrow> [] | Some p \<Rightarrow> p)"
    and "st_comparison (fetchRoute_settle u f t (Responded status (Parsed d)) s) = resp_comparison d"
proof -
  obtain thrown s' where tb: "tryBlock u f t (Responded status (Parsed d)) s = (thrown, s')"
    by (cases "tryBlock u f t (Responded status (Parsed d)) s") blast
  from tryBlock_parsed_fields(6) [OF assms(1) tb] assms(2) have none: "thrown = None"
    by simp
  have settle: "fetchRoute_settle u f t (Responded status (Parsed d)) s = s'\<lparr>st_loading := False\<rparr>"
    by (simp add: fetchRoute_settle_def tb none)
  show "st_nodes (fetchRoute_settle u f t (Responded status (Parsed d)) s) = resp_nodes d"
    by (simp add: settle tryBlock_parsed_fields(1) [OF assms(1) tb])
  show "st_edges (fetchRoute_settle u f t (Responded status (Parsed d)) s) = resp_edges d"
    by (simp add: settle tryBlock_parsed_fields(2) [OF assms(1) tb])
  show "st_route (fetchRoute_settle u f t (Responded status (Parsed d)) s) = apiRoute d"
    by (simp add: settle tryBlock_parsed_fields(3) [OF assms(1) tb])
  show "st_baselinePath (fetchRoute_settle u f t (Responded status (Parsed d)) s)
           = (case resp_baseline_path d of None \<Rightarrow> [] | Some p \<Rightarrow> p)"
    by (simp add: settle tryBlock_parsed_fields(4) [OF assms(1) tb])
  show "st_comparison (fetchRoute_settle u f t (Responded status (Parsed d)) s) = resp_comparison d"
    by (simp add: settle tryBlock_parsed_fields(5) [OF assms(1) tb])
qed

text \<open>
  Claim C5. A route without a summary gets the summary made of its total distance and its
  fuel cost, each replaced by 0 when missing; a route with a summary is passed on as it
  is; and this route is what a successful request stores.
\<close>

theorem apiRoute_summary:
  "(resp_route d = Some r \<and> route_summary r = None \<longrightarrow>
      apiRoute d = Some (r\<lparr>route_summary :=
        Some \<lparr>summary_distance_km = (case route_total_distance r of None \<Rightarrow> 0 | Some x \<Rightarrow> x),
              summary_fuel_cost = (case route_fuel_cost r of None \<Rightarrow> 0 | Some c \<Rightarrow> c)\<rparr>\<rparr>))
   \<and> (resp_route d = Some r \<and> route_summary r = Some sm \<longrightarrow> apiRoute d = Some r)
   \<and> (resp_route d = Some r \<and> ok status \<longrightarrow>
        st_route (fetchRoute_settle u f t (Responded status (Parsed d)) s) = apiRoute d)"
  by (simp add: apiRoute_def fetchRoute_settle_committed)

text \<open>
  Instances: the total distance 120.4 and the fuel cost 38.2 without a summary, and the
  same route with a summary of 1 and 2, which is kept.
\<close>

theorem apiRoute_summary_witness:
  "apiRoute \<lparr>resp_api_version = None, resp_nodes = [], resp_edges = [],
       resp_route = Some \<lparr>route_path = [''A'', ''B''], route_total_distance = Some 120.4,
         route_fuel_cost = Some 38.2, route_objective = 1, route_expanded = 2,
         route_notes = None, route_summary = None\<rparr>,
       resp_baseline_path = None, resp_comparison = None\<rparr>
     = Some \<lparr>route_path = [''A'', ''B''], route_total_distance = Some 120.4,
         route_fuel_cost = Some 38.2, route_objective = 1, route_expanded = 2,
         route_notes = None,
         route_summary = Some \<lparr>summary_distance_km = 120.4, summary_fuel_cost = 38.2\<rparr>\<rparr>
   \<and> st_route (fetchRoute_settle False [] [] (Responded 200 (Parsed
       \<lparr>resp_api_version = None, resp_nodes = [], resp_edges = [],
        resp_route = Some \<lparr>route_path = [''A'', ''B''], route_total_distance = Some 120.4,
          route_fuel_cost = Some 38.2, route_objective = 1, route_expanded = 2,
          route_notes = None,
          route_summary = Some \<lparr>summary_distance_km = 1, summary_fuel_cost = 2\<rparr>\<rparr>,
        resp_baseline_path = None, resp_comparison = None\<rparr>)) initialState)
     = Some \<lparr>route_path = [''A'', ''B''], route_total_distance = Some 120.4,
          route_fuel_cost = Some 38.2, route_objective = 1, route_expanded = 2,
          route_notes = None,
          route_summary = Some \<lparr>summary_distance_km = 1, summary_fuel_cost = 2\<rparr>\<rparr>"
proof -
  let ?r0 = "\<lparr>route_path = [''A'', ''B''], route_total_distance = Some 120.4,
         route_fuel_cost = Some 38.2, route_objective = 1, route_expanded = 2,
         route_notes = None, route_summary = None\<rparr>"
  let ?r1 = "\<lparr>route_path = [''A'', ''B''], route_total_distance = Some 120.4,
          route_fuel_cost = Some 38.2, route_objective = 1, route_expanded = 2,
          route_notes = None,
          route_summary = Some \<lparr>summary_distance_km = 1, summary_fuel_cost = 2\<rparr>\<rparr>"
  have absent: "apiRoute \<lparr>resp_api_version = None, resp_nodes = [], resp_edges = [],
       resp_route = Some ?r0, resp_baseline_path = None, resp_comparison = None\<rparr>
     = Some (?r0\<lparr>route_summary := Some \<lparr>summary_distance_km = 120.4, summary_fuel_cost = 38.2\<rparr>\<rparr>)"
    using apiRoute_summary
      [where d = "\<lparr>resp_api_version = None, resp_nodes = [], resp_edges = [],
       resp_route = Some ?r0, resp_baseline_path = None, resp_comparison = None\<rparr>" and r = ?r0]
    by simp
  have present: "st_route (fetchRoute_settle False [] [] (Responded 200 (Parsed
       \<lparr>resp_api_version = None, resp_nodes = [], resp_edges = [],
        resp_route = Some ?r1, resp_baseline_path = None, resp_comparison = None\<rparr>)) initialState)
     = Some ?r1"
    using apiRoute_summary
      [where d = "\<lparr>resp_api_version = None, resp_nodes = [], resp_edges = [],
        resp_route = Some ?r1, resp_baseline_path = None, resp_comparison = None\<rparr>" and r = ?r1
        and sm = "\<lparr>summary_distance_km = 1, summary_fuel_cost = 2\<rparr>"
        and status = 200 and u = False and f = "[]" and t = "[]" and s = initialState]
    by (simp add: ok_def)
  from absent present show ?thesis by simp
qed

lemma fetchRoute_settle_written:
  assumes "ok c"
  shows "st_nodes (fetchRoute_settle u f t (Responded c (Parsed d)) s) = resp_nodes d"
    and "st_edges (fetchRoute_settle u f t (Responded c (Parsed d)) s) = resp_edges d"
    and "st_comparison (fetchRoute_settle u f t (Responded c (Parsed d)) s) = resp_comparison d"
    and "st_route (fetchRoute_settle u f t (Responded c (Parsed d)) s) = apiRoute d"
    and "st_baselinePath (fetchRoute_settle u f t (Responded c (Parsed d)) s)
           = (if u \<or> resp_route d \<noteq> None
              then (case resp_baseline_path d of None \<Rightarrow> [] | Some p \<Rightarrow> p) else [])"
proof -
  obtain thrown s' where tb: "tryBlock u f t (Responded c (Parsed d)) s = (thrown, s')"
    by (cases "tryBlock u f t (Responded c (Parsed d)) s") blast
  note fields = tryBlock_parsed_fields [OF assms tb]
  show "st_nodes (fetchRoute_settle u f t (Responded c (Parsed d)) s) = resp_nodes d"
    using fields(1) by (cases thrown) (simp_all add: fetchRoute_settle_def tb catchBlock_def)
  show "st_edges (fetchRoute_settle u f t (Responded c (Parsed d)) s) = resp_edges d"
    using fields(2) by (cases thrown) (simp_all add: fetchRoute_settle_def tb catchBlock_def)
  show "st_comparison (fetchRoute_settle u f t (Responded c (Parsed d)) s) = resp_comparison d"
    using fields(5) by (cases thrown) (simp_all add: fetchRoute_settle_def tb catchBlock_def)
  show "st_route (fetchRoute_settle u f t (Responded c (Parsed d)) s) = apiRoute d"
  proof (cases thrown)
    case None
    then show ?thesis using fields(3) by (simp add: fetchRoute_settle_def tb)
  next
    case (Some err)
    with fields(6) have "resp_route d = None" by simp
    then have "apiRoute d = None" by (simp add: apiRoute_def)
    with Some show ?thesis by (simp add: fetchRoute_settle_def tb catchBlock_def)
  qed
  show "st_baselinePath (fetchRoute_settle u f t (Responded c (Parsed d)) s)
           = (if u \<or> resp_route d \<noteq> None
              then (case resp_baseline_path d of None \<Rightarrow> [] | Some p \<Rightarrow> p) else [])"
  proof (cases thrown)
    case None
    with fields(6) have "u \<or> resp_route d \<noteq> None" by simp
    with None show ?thesis using fields(4) by (simp add: fetchRoute_settle_def tb)
  next
    case (Some err)
    with fields(6) have "\<not> (u \<or> resp_route d \<noteq> None)" by simp
    with Some tb show ?thesis by (simp add: fetchRoute_settle_def catchBlock_def)
  qed
qed

lemma fetchRoute_settle_not_written:
  assumes "\<not> (\<exists>c d. outcome = Responded c (Parsed d) \<and> ok c)"
  shows "\<exists>err. fetchRoute_settle u f t outcome s =
     s\<lparr>st_error := Some err, st_route := None, st_baselinePath := [], st_loading := False\<rparr>"
proof (cases outcome)
  case (Rejected msg)
  show ?thesis
    unfolding Rejected
    by (rule exI [where x = "FetchRejected msg"]) (simp add: fetchRoute_settle_failed)
next
  case (Responded c body)
  show ?thesis
  proof (cases "ok c")
    case False
    show ?thesis
      unfolding Responded
      by (rule exI [where x = "RequestFailed c"]) (simp add: fetchRoute_settle_failed False)
  next
    case True
    with Responded assms obtain msg where body: "body = Unparseable msg"
      by (cases body) auto
    show ?thesis
      unfolding Responded body
      by (rule exI [where x = "JsonRejected msg"])
         (simp add: fetchRoute_settle_def tryBlock_def catchBlock_def True)
  qed
qed

text \<open>
  Claim C2, as the code has it. A call of \<^verbatim>\<open>fetchRoute\<close> touches the state in two
  steps, each run to completion: the start, and the code after the answer of the network.
  Two requests overlap when both have started before either is answered; they are then
  answered one after the other, each with any outcome. A commit that does not throw
  writes nodes, edges, route, baseline path and comparison from its one response,
  whatever the state was. After the two answers:
  \<^item> when the last answer is a parsed response with an ok status, nodes, edges, comparison
    and route are those of that response, and so is the baseline path unless the code
    throws after the setters, which leaves the baseline path empty;
  \<^item> when the last answer is anything else, the route is cleared and the baseline path
    is empty, and nodes, edges and comparison are those of the first answer if that was
    a parsed response with an ok status, and otherwise those of the state before the two
    requests.
  In every case nodes, edges and comparison come from one response, and the route and the
  baseline path are those of that same response or cleared.
\<close>

theorem overlapping_requests_view_model:
  "(ok c \<and> (u \<or> resp_route d \<noteq> None) \<longrightarrow>
      (let s' = fetchRoute_settle u f t (Responded c (Parsed d)) s
       in st_nodes s' = resp_nodes d
        \<and> st_edges s' = resp_edges d
        \<and> st_route s' = apiRoute d
        \<and> st_baselinePath s' = (case resp_baseline_path d of None \<Rightarrow> [] | Some p \<Rightarrow> p)
        \<and> st_comparison s' = resp_comparison d))
   \<and> (let s1 = fetchRoute_settle u1 f1 t1 o1 (fetchRoute_start (fetchRoute_start s));
           s2 = fetchRoute_settle u2 f2 t2 o2 s1
       in (\<forall>c2 d2. o2 = Responded c2 (Parsed d2) \<and> ok c2 \<longrightarrow>
             st_nodes s2 = resp_nodes d2
             \<and> st_edges s2 = resp_edges d2
             \<and> st_comparison s2 = resp_comparison d2
             \<and> st_route s2 = apiRoute d2
             \<and> (u2 \<or> resp_route d2 \<noteq> None \<longrightarrow>
                  st_baselinePath s2 = (case resp_baseline_path d2 of None \<Rightarrow> [] | Some p \<Rightarrow> p))
             \<and> (\<not> u2 \<and> resp_route d2 = None \<longrightarrow> st_baselinePath s2 = []))
        \<and> (\<not> (\<exists>c2 d2. o2 = Responded c2 (Parsed d2) \<and> ok c2) \<longrightarrow>
             st_route s2 = None
             \<and> st_baselinePath s2 = []
             \<and> (\<forall>c1 d1. o1 = Responded c1 (Parsed d1) \<and> ok c1 \<longrightarrow>
                  st_nodes s2 = resp_nodes d1
                  \<and> st_edges s2 = resp_edges d1
                  \<and> st_comparison s2 = resp_comparison d1)
             \<and> (\<not> (\<exists>c1 d1. o1 = Responded c1 (Parsed d1) \<and> ok c1) \<longrightarrow>
                  st_nodes s2 = st_nodes s
                  \<and> st_edges s2 = st_edges s
                  \<and> st_comparison s2 = st_comparison s)))"
proof (intro conjI)
  show "ok c \<and> (u \<or> resp_route d \<noteq> None) \<longrightarrow>
      (let s' = fetchRoute_settle u f t (Responded c (Parsed d)) s
       in st_nodes s' = resp_nodes d
        \<and> st_edges s' = resp_edges d
        \<and> st_route s' = apiRoute d
        \<and> st_baselinePath s' = (case resp_baseline_path d of None \<Rightarrow> [] | Some p \<Rightarrow> p)
        \<and> st_comparison s' = resp_comparison d)"
    by (simp add: Let_def fetchRoute_settle_written)
next
  let ?s1 = "fetchRoute_settle u1 f1 t1 o1 (fetchRoute_start (fetchRoute_start s))"
  let ?s2 = "fetchRoute_settle u2 f2 t2 o2 ?s1"
  have written: "\<forall>c2 d2. o2 = Responded c2 (Parsed d2) \<and> ok c2 \<longrightarrow>
             st_nodes ?s2 = resp_nodes d2
             \<and> st_edges ?s2 = resp_edges d2
             \<and> st_comparison ?s2 = resp_comparison d2
             \<and> st_route ?s2 = apiRoute d2
             \<and> (u2 \<or> resp_route d2 \<noteq> None \<longrightarrow>
                  st_baselinePath ?s2 = (case resp_baseline_path d2 of None \<Rightarrow> [] | Some p \<Rightarrow> p))
             \<and> (\<not> u2 \<and> resp_route d2 = None \<longrightarrow> st_baselinePath ?s2 = [])"
    by (auto simp: fetchRoute_settle_written)
  have failed: "\<not> (\<exists>c2 d2. o2 = Responded c2 (Parsed d2) \<and> ok c2) \<longrightarrow>
             st_route ?s2 = None
             \<and> st_baselinePath ?s2 = []
             \<and> (\<forall>c1 d1. o1 = Responded c1 (Parsed d1) \<and> ok c1 \<longrightarrow>
                  st_nodes ?s2 = resp_nodes d1
                  \<and> st_edges ?s2 = resp_edges d1
                  \<and> st_comparison ?s2 = resp_comparison d1)
             \<and> (\<not> (\<exists>c1 d1. o1 = Responded c1 (Parsed d1) \<and> ok c1) \<longrightarrow>
                  st_nodes ?s2 = st_nodes s
                  \<and> st_edges ?s2 = st_edges s
                  \<and> st_comparison ?s2 = st_comparison s)"
  proof
    assume no2: "\<not> (\<exists>c2 d2. o2 = Responded c2 (Parsed d2) \<and> ok c2)"
    from fetchRoute_settle_not_written [OF no2]
    obtain err where s2: "?s2 =
        ?s1\<lparr>st_error := Some err, st_route := None, st_baselinePath := [], st_loading := False\<rparr>"
      by blast
    have first: "\<forall>c1 d1. o1 = Responded c1 (Parsed d1) \<and> ok c1 \<longrightarrow>
                  st_nodes ?s1 = resp_nodes d1
                  \<and> st_edges ?s1 = resp_edges d1
                  \<and> st_comparison ?s1 = resp_comparison d1"
      by (auto simp: fetchRoute_settle_written)
    have none: "\<not> (\<exists>c1 d1. o1 = Responded c1 (Parsed d1) \<and> ok c1) \<longrightarrow>
          st_nodes ?s1 = st_nodes s \<and> st_edges ?s1 = st_edges s
          \<and> st_comparison ?s1 = st_comparison s"
    proof
      assume no1: "\<not> (\<exists>c1 d1. o1 = Responded c1 (Parsed d1) \<and> ok c1)"
      from fetchRoute_settle_not_written [OF no1]
      obtain err1 where "?s1 = (fetchRoute_start (fetchRoute_start s))
          \<lparr>st_error := Some err1, st_route := None, st_baselinePath := [], st_loading := False\<rparr>"
        by blast
      then show "st_nodes ?s1 = st_nodes s \<and> st_edges ?s1 = st_edges s
          \<and> st_comparison ?s1 = st_comparison s"
        by (simp add: fetchRoute_start_def)
    qed
    show "st_route ?s2 = None
             \<and> st_baselinePath ?s2 = []
             \<and> (\<forall>c1 d1. o1 = Responded c1 (Parsed d1) \<and> ok c1 \<longrightarrow>
                  st_nodes ?s2 = resp_nodes d1
                  \<and> st_edges ?s2 = resp_edges d1
                  \<and> st_comparison ?s2 = resp_comparison d1)
             \<and> (\<not> (\<exists>c1 d1. o1 = Responded c1 (Parsed d1) \<and> ok c1) \<longrightarrow>
                  st_nodes ?s2 = st_nodes s
                  \<and> st_edges ?s2 = st_edges s
                  \<and> st_comparison ?s2 = st_comparison s)"
      unfolding s2 using first none by simp
  qed
  from written failed
  show "let s1 = fetchRoute_settle u1 f1 t1 o1 (fetchRoute_start (fetchRoute_start s));
           s2 = fetchRoute_settle u2 f2 t2 o2 s1
       in (\<forall>c2 d2. o2 = Responded c2 (Parsed d2) \<and> ok c2 \<longrightarrow>
             st_nodes s2 = resp_nodes d2
             \<and> st_edges s2 = resp_edges d2
             \<and> st_comparison s2 = resp_comparison d2
             \<and> st_route s2 = apiRoute d2
             \<and> (u2 \<or> resp_route d2 \<noteq> None \<longrightarrow>
                  st_baselinePath s2 = (case resp_baseline_path d2 of None \<Rightarrow> [] | Some p \<Rightarrow> p))
             \<and> (\<not> u2 \<and> resp_route d2 = None \<longrightarrow> st_baselinePath s2 = []))
        \<and> (\<not> (\<exists>c2 d2. o2 = Responded c2 (Parsed d2) \<and> ok c2) \<longrightarrow>
             st_route s2 = None
             \<and> st_baselinePath s2 = []
             \<and> (\<forall>c1 d1. o1 = Responded c1 (Parsed d1) \<and> ok c1 \<longrightarrow>
                  st_nodes s2 = resp_nodes d1
                  \<and> st_edges s2 = resp_edges d1
                  \<and> st_comparison s2 = resp_comparison d1)
             \<and> (\<not> (\<exists>c1 d1. o1 = Responded c1 (Parsed d1) \<and> ok c1) \<longrightarrow>
                  st_nodes s2 = st_nodes s
                  \<and> st_edges s2 = st_edges s
                  \<and> st_comparison s2 = st_comparison s))"
    unfolding Let_def by blast
qed

text \<open>
  Instances from the initial state, for the first load (no explicit endpoints) and a
  submitted request that overlap: two responses, the one answered last committed; a
  response followed by a network failure; a network failure followed by a response
  without route to the first load, which throws after the setters; and two failures.
\<close>

theorem overlapping_requests_view_model_witness:
  "st_nodes
     (fetchRoute_settle True [] []
        (Responded 200 (Parsed
           \<lparr>resp_api_version = Some ''v1'',
            resp_nodes = [\<lparr>node_id = ''A'', node_x = 10, node_y = 20, node_fuel_price = Some 3\<rparr>],
            resp_edges = [],
            resp_route = Some \<lparr>route_path = [''A''], route_total_distance = Some 0,
              route_fuel_cost = Some 0, route_objective = 0, route_expanded = 1,
              route_notes = None,
              route_summary = Some \<lparr>summary_distance_km = 0, summary_fuel_cost = 0\<rparr>\<rparr>,
            resp_baseline_path = None, resp_comparison = None\<rparr>))
        (fetchRoute_settle False [] []
           (Responded 200 (Parsed
              \<lparr>resp_api_version = None,
               resp_nodes = [\<lparr>node_id = ''C'', node_x = 1, node_y = 2, node_fuel_price = None\<rparr>],
               resp_edges = [],
               resp_route = Some \<lparr>route_path = [''C''], route_total_distance = Some 5,
                 route_fuel_cost = Some 6, route_objective = 7, route_expanded = 8,
                 route_notes = None, route_summary = None\<rparr>,
               resp_baseline_path = Some [''C''],
               resp_comparison = Some \<lparr>cmp_baseline_fuel_cost = 9, cmp_optimized_fuel_cost = 6,
                 cmp_savings_amount = 3, cmp_savings_percent = 33\<rparr>\<rparr>))
           (fetchRoute_start (fetchRoute_start initialState))))
     = [\<lparr>node_id = ''A'', node_x = 10, node_y = 20, node_fuel_price = Some 3\<rparr>]
   \<and> st_comparison
     (fetchRoute_settle False [] [] (Rejected ''Failed to fetch'')
        (fetchRoute_settle True [] []
           (Responded 200 (Parsed
              \<lparr>resp_api_version = None,
               resp_nodes = [\<lparr>node_id = ''C'', node_x = 1, node_y = 2, node_fuel_price = None\<rparr>],
               resp_edges = [],
               resp_route = Some \<lparr>route_path = [''C''], route_total_distance = Some 5,
                 route_fuel_cost = Some 6, route_objective = 7, route_expanded = 8,
                 route_notes = None, route_summary = None\<rparr>,
               resp_baseline_path = Some [''C''],
               resp_comparison = Some \<lparr>cmp_baseline_fuel_cost = 9, cmp_optimized_fuel_cost = 6,
                 cmp_savings_amount = 3, cmp_savings_percent = 33\<rparr>\<rparr>))
           (fetchRoute_start (fetchRoute_start initialState))))
     = Some \<lparr>cmp_baseline_fuel_cost = 9, cmp_optimized_fuel_cost = 6,
              cmp_savings_amount = 3, cmp_savings_percent = 33\<rparr>
   \<and> st_baselinePath
     (fetchRoute_settle False [] []
        (Responded 200 (Parsed
           \<lparr>resp_api_version = None,
            resp_nodes = [\<lparr>node_id = ''A'', node_x = 10, node_y = 20, node_fuel_price = Some 3\<rparr>],
            resp_edges = [], resp_route = None,
            resp_baseline_path = Some [''A''], resp_comparison = None\<rparr>))
        (fetchRoute_settle True [] [] (Rejected ''Failed to fetch'')
           (fetchRoute_start (fetchRoute_start initialState))))
     = []
   \<and> st_nodes
     (fetchRoute_settle False [] [] (Responded 503 (Unparseable []))
        (fetchRoute_settle True [] [] (Rejected ''Failed to fetch'')
           (fetchRoute_start (fetchRoute_start initialState))))
     = []"
proof -
  let ?dA = "\<lparr>resp_api_version = Some ''v1'',
            resp_nodes = [\<lparr>node_id = ''A'', node_x = 10, node_y = 20, node_fuel_price = Some 3\<rparr>],
            resp_edges = [],
            resp_route = Some \<lparr>route_path = [''A''], route_total_distance = Some 0,
              route_fuel_cost = Some 0, route_objective = 0, route_expanded = 1,
              route_notes = None,
              route_summary = Some \<lparr>summary_distance_km = 0, summary_fuel_cost = 0\<rparr>\<rparr>,
            resp_baseline_path = None, resp_comparison = None\<rparr>"
  let ?dC = "\<lparr>resp_api_version = None,
               resp_nodes = [\<lparr>node_id = ''C'', node_x = 1, node_y = 2, node_fuel_price = None\<rparr>],
               resp_edges = [],
               resp_route = Some \<lparr>route_path = [''C''], route_total_distance = Some 5,
                 route_fuel_cost = Some 6, route_objective = 7, route_expanded = 8,
                 route_notes = None, route_summary = None\<rparr>,
               resp_baseline_path = Some [''C''],
               resp_comparison = Some \<lparr>cmp_baseline_fuel_cost = 9, cmp_optimized_fuel_cost = 6,
                 cmp_savings_amount = 3, cmp_savings_percent = 33\<rparr>\<rparr>"
  let ?dN = "\<lparr>resp_api_version = None,
            resp_nodes = [\<lparr>node_id = ''A'', node_x = 10, node_y = 20, node_fuel_price = Some 3\<rparr>],
            resp_edges = [], resp_route = None,
            resp_baseline_path = Some [''A''], resp_comparison = None\<rparr>"
  have committed: "st_nodes
     (fetchRoute_settle True [] [] (Responded 200 (Parsed ?dA))
        (fetchRoute_settle False [] [] (Responded 200 (Parsed ?dC))
           (fetchRoute_start (fetchRoute_start initialState))))
     = resp_nodes ?dA"
    using overlapping_requests_view_model
      [where c = 200 and u = True and d = ?dA and s = initialState
         and ?u1.0 = False and ?f1.0 = "[]" and ?t1.0 = "[]" and ?o1.0 = "Responded 200 (Parsed ?dC)"
         and ?u2.0 = True and ?f2.0 = "[]" and ?t2.0 = "[]" and ?o2.0 = "Responded 200 (Parsed ?dA)"]
    unfolding Let_def by (simp add: ok_def)
  have failed_after: "st_comparison
     (fetchRoute_settle False [] [] (Rejected ''Failed to fetch'')
        (fetchRoute_settle True [] [] (Responded 200 (Parsed ?dC))
           (fetchRoute_start (fetchRoute_start initialState))))
     = resp_comparison ?dC"
    using overlapping_requests_view_model
      [where c = 200 and u = True and d = ?dA and s = initialState
         and ?u1.0 = True and ?f1.0 = "[]" and ?t1.0 = "[]" and ?o1.0 = "Responded 200 (Parsed ?dC)"
         and ?u2.0 = False and ?f2.0 = "[]" and ?t2.0 = "[]" and ?o2.0 = "Rejected ''Failed to fetch''"]
    unfolding Let_def by (simp add: ok_def)
  have late: "st_baselinePath
     (fetchRoute_settle False [] [] (Responded 200 (Parsed ?dN))
        (fetchRoute_settle True [] [] (Rejected ''Failed to fetch'')
           (fetchRoute_start (fetchRoute_start initialState))))
     = []"
    using overlapping_requests_view_model
      [where c = 200 and u = True and d = ?dA and s = initialState
         and ?u1.0 = True and ?f1.0 = "[]" and ?t1.0 = "[]" and ?o1.0 = "Rejected ''Failed to fetch''"
         and ?u2.0 = False and ?f2.0 = "[]" and ?t2.0 = "[]" and ?o2.0 = "Responded 200 (Parsed ?dN)"]
    unfolding Let_def by (simp add: ok_def)
  have both_failed: "st_nodes
     (fetchRoute_settle False [] [] (Responded 503 (Unparseable []))
        (fetchRoute_settle True [] [] (Rejected ''Failed to fetch'')
           (fetchRoute_start (fetchRoute_start initialState))))
     = st_nodes initialState"
    using overlapping_requests_view_model
      [where c = 200 and u = True and d = ?dA and s = initialState
         and ?u1.0 = True and ?f1.0 = "[]" and ?t1.0 = "[]" and ?o1.0 = "Rejected ''Failed to fetch''"
         and ?u2.0 = False and ?f2.0 = "[]" and ?t2.0 = "[]"
         and ?o2.0 = "Responded 503 (Unparseable [])"]
    unfolding Let_def by simp
  from committed failed_after late both_failed show ?thesis
    by (simp add: initialState_def)
qed

text \<open>
  Claim C2 as the specification states it fails when the request answered last fails:
  the submitted request is answered first and its response, which has the route C, is
  committed; the first load then fails on the network. The final state has the nodes of
  the committed response and no route, so it is not the content of that response.
\<close>

theorem last_commit_route_cleared_counterexample:
  "st_nodes
     (fetchRoute_settle False [] [] (Rejected ''Failed to fetch'')
        (fetchRoute_settle True [] []
           (Responded 200 (Parsed
              \<lparr>resp_api_version = None,
               resp_nodes = [\<lparr>node_id = ''C'', node_x = 1, node_y = 2, node_fuel_price = None\<rparr>],
               resp_edges = [],
               resp_route = Some \<lparr>route_path = [''C''], route_total_distance = Some 5,
                 route_fuel_cost = Some 6, route_objective = 7, route_expanded = 8,
                 route_notes = None,
                 route_summary = Some \<lparr>summary_distance_km = 5, summary_fuel_cost = 6\<rparr>\<rparr>,
               resp_baseline_path = None, resp_comparison = None\<rparr>))
           (fetchRoute_start (fetchRoute_start initialState))))
     = [\<lparr>node_id = ''C'', node_x = 1, node_y = 2, node_fuel_price = None\<rparr>]
   \<and> st_route
     (fetchRoute_settle False [] [] (Rejected ''Failed to fetch'')
        (fetchRoute_settle True [] []
           (Responded 200 (Parsed
              \<lparr>resp_api_version = None,
               resp_nodes = [\<lparr>node_id = ''C'', node_x = 1, node_y = 2, node_fuel_price = None\<rparr>],
               resp_edges = [],
               resp_route = Some \<lparr>route_path = [''C''], route_total_distance = Some 5,
                 route_fuel_cost = Some 6, route_objective = 7, route_expanded = 8,
                 route_notes = None,
                 route_summary = Some \<lparr>summary_distance_km = 5, summary_fuel_cost = 6\<rparr>\<rparr>,
               resp_baseline_path = None, resp_comparison = None\<rparr>))
           (fetchRoute_start (fetchRoute_start initialState))))
     = None"
  by (simp add: fetchRoute_settle_def tryBlock_def catchBlock_def fetchRoute_start_def ok_def
      initialState_def apiRoute_def Let_def)

text \<open>
  Claim C3, as the code has it. After a failed fetch (the network fails, or the status
  is not ok) the route is cleared and the baseline path is empty. The summary section
  draws the comparison only for a route with a path, so no comparison is shown. The
  error is set.
\<close>

theorem failed_fetch_clears_route:
  "outcome = Rejected msg \<or> (outcome = Responded status body \<and> \<not> ok status) \<longrightarrow>
     st_route (fetchRoute_settle u f t outcome s) = None
     \<and> st_baselinePath (fetchRoute_settle u f t outcome s) = []
     \<and> shownComparison (fetchRoute_settle u f t outcome s) = None
     \<and> st_error (fetchRoute_settle u f t outcome s) \<noteq> None"
  by (auto simp: fetchRoute_settle_failed shownComparison_def)

text \<open>Instances: a network failure and a status 500, from a state that shows a route.\<close>

theorem failed_fetch_clears_route_witness:
  "st_route (fetchRoute_settle True ''A'' ''B'' (Rejected ''Failed to fetch'')
      (initialState\<lparr>st_route := Some \<lparr>route_path = [''A'', ''B''], route_total_distance = Some 5,
                route_fuel_cost = Some 6, route_objective = 7, route_expanded = 8,
                route_notes = None, route_summary = None\<rparr>, st_baselinePath := [''A'', ''B'']\<rparr>)) = None
   \<and> st_baselinePath (fetchRoute_settle True ''A'' ''B'' (Responded 500 (Unparseable []))
      (initialState\<lparr>st_route := Some \<lparr>route_path = [''A'', ''B''], route_total_distance = Some 5,
                route_fuel_cost = Some 6, route_objective = 7, route_expanded = 8,
                route_notes = None, route_summary = None\<rparr>, st_baselinePath := [''A'', ''B'']\<rparr>)) = []"
  using
    failed_fetch_clears_route
      [where outcome = "Rejected ''Failed to fetch''" and msg = "''Failed to fetch''"
         and u = True and f = "''A''" and t = "''B''"
         and s = "initialState\<lparr>st_route := Some \<lparr>route_path = [''A'', ''B''], route_total_distance = Some 5,
                route_fuel_cost = Some 6, route_objective = 7, route_expanded = 8,
                route_notes = None, route_summary = None\<rparr>, st_baselinePath := [''A'', ''B'']\<rparr>"]
    failed_fetch_clears_route
      [where outcome = "Responded 500 (Unparseable [])" and status = 500 and body = "Unparseable []"
         and u = True and f = "''A''" and t = "''B''"
         and s = "initialState\<lparr>st_route := Some \<lparr>route_path = [''A'', ''B''], route_total_distance = Some 5,
                route_fuel_cost = Some 6, route_objective = 7, route_expanded = 8,
                route_notes = None, route_summary = None\<rparr>, st_baselinePath := [''A'', ''B'']\<rparr>"]
  by (simp add: ok_def)

text \<open>
  Claim C3 as the specification states it fails for the comparison: after a first load
  that stored a comparison, a request that fails on the network leaves that comparison in
  the state.
\<close>

theorem failed_fetch_keeps_comparison_counterexample:
  "st_comparison
     (fetchRoute_settle True ''A'' ''B'' (Rejected ''Failed to fetch'')
        (fetchRoute_start
           (fetchRoute_settle False [] []
              (Responded 200 (Parsed
                 \<lparr>resp_api_version = Some ''v1'',
                  resp_nodes = [\<lparr>node_id = ''A'', node_x = 10, node_y = 20, node_fuel_price = None\<rparr>,
                                \<lparr>node_id = ''B'', node_x = 30, node_y = 40, node_fuel_price = None\<rparr>],
                  resp_edges = [\<lparr>edge_from = ''A'', edge_to = ''B'', edge_distance = 7,
                                  edge_geometry = None\<rparr>],
                  resp_route = Some \<lparr>route_path = [''A'', ''B''], route_total_distance = Some 7,
                    route_fuel_cost = Some 6, route_objective = 6, route_expanded = 2,
                    route_notes = None, route_summary = None\<rparr>,
                  resp_baseline_path = Some [''A'', ''B''],
                  resp_comparison = Some \<lparr>cmp_baseline_fuel_cost = 9, cmp_optimized_fuel_cost = 6,
                    cmp_savings_amount = 3, cmp_savings_percent = 33\<rparr>\<rparr>))
              (fetchRoute_start initialState))))
   = Some \<lparr>cmp_baseline_fuel_cost = 9, cmp_optimized_fuel_cost = 6,
            cmp_savings_amount = 3, cmp_savings_percent = 33\<rparr>"
  by (simp add: fetchRoute_settle_def tryBlock_def catchBlock_def fetchRoute_start_def ok_def
      initialState_def apiRoute_def Let_def)

text \<open>
  Claim C10, at an input where the code departs from it. The first load, from the
  initial state, is answered with the status 200 and a body that has a node and an edge
  and no route. The five setters run; then \<^verbatim>\<open>data.route.path\<close> throws, although
  \<^verbatim>\<open>data.route ?? null\<close> a few lines above allows for a missing route. The catch block
  sets the error, and the nodes and edges are no longer those of the state before the
  request.
\<close>

theorem missing_route_error_after_setters:
  "st_error
     (fetchRoute_settle False [] []
        (Responded 200 (Parsed
           \<lparr>resp_api_version = None,
            resp_nodes = [\<lparr>node_id = ''A'', node_x = 10, node_y = 20, node_fuel_price = None\<rparr>],
            resp_edges = [\<lparr>edge_from = ''A'', edge_to = ''A'', edge_distance = 0,
                            edge_geometry = None\<rparr>],
            resp_route = None, resp_baseline_path = None, resp_comparison = None\<rparr>))
        (fetchRoute_start initialState))
     = Some RouteReadTypeError
   \<and> st_nodes
     (fetchRoute_settle False [] []
        (Responded 200 (Parsed
           \<lparr>resp_api_version = None,
            resp_nodes = [\<lparr>node_id = ''A'', node_x = 10, node_y = 20, node_fuel_price = None\<rparr>],
            resp_edges = [\<lparr>edge_from = ''A'', edge_to = ''A'', edge_distance = 0,
                            edge_geometry = None\<rparr>],
            resp_route = None, resp_baseline_path = None, resp_comparison = None\<rparr>))
        (fetchRoute_start initialState))
     = [\<lparr>node_id = ''A'', node_x = 10, node_y = 20, node_fuel_price = None\<rparr>]
   \<and> st_edges
     (fetchRoute_settle False [] []
        (Responded 200 (Parsed
           \<lparr>resp_api_version = None,
            resp_nodes = [\<lparr>node_id = ''A'', node_x = 10, node_y = 20, node_fuel_price = None\<rparr>],
            resp_edges = [\<lparr>edge_from = ''A'', edge_to = ''A'', edge_distance = 0,
                            edge_geometry = None\<rparr>],
            resp_route = None, resp_baseline_path = None, resp_comparison = None\<rparr>))
        (fetchRoute_start initialState))
     = [\<lparr>edge_from = ''A'', edge_to = ''A'', edge_distance = 0, edge_geometry = None\<rparr>]
   \<and> st_nodes (fetchRoute_start initialState) = []
   \<and> st_edges (fetchRoute_start initialState) = []"
  by (simp add: fetchRoute_settle_def tryBlock_def catchBlock_def fetchRoute_start_def ok_def
      initialState_def apiRoute_def Let_def)

end
